theory Spec2Isabelle
  imports Complex_Main
begin

section \<open>Python values and exceptions\<close>

text \<open>
  The values the DLQ handler manipulates are the results of \<^verbatim>\<open>json.loads\<close>: \<^verbatim>\<open>None\<close>,
  booleans, integers, floats, strings, lists and dicts with string keys. A dict is an
  association list of its entries, read with \<open>map_of\<close>; the keys of a dict are distinct. A float is represented by its value as a rational;
  the handler only ever tests a number for being zero.
\<close>

datatype json =
    JNull
  | JBool bool
  | JInt int
  | JFloat rat
  | JString string
  | JArray "json list"
  | JObject "(string \<times> json) list"

text \<open>The exceptions that the two handlers can raise or let through.\<close>

datatype exn =
    AttributeError
  | TypeError
  | KeyError
  | IndexError
  | ValueError
  | JSONDecodeError
  | RecursionError
  | HTTPError nat string
  | URLError string
  | OtherException string

text \<open>Truth value of a Python object, as tested by \<^verbatim>\<open>not x\<close>.\<close>

fun truthy :: "json \<Rightarrow> bool" where
  "truthy JNull = False"
| "truthy (JBool b) = b"
| "truthy (JInt i) = (i \<noteq> 0)"
| "truthy (JFloat r) = (r \<noteq> 0)"
| "truthy (JString s) = (s \<noteq> [])"
| "truthy (JArray xs) = (xs \<noteq> [])"
| "truthy (JObject kvs) = (kvs \<noteq> [])"

text \<open>\<^verbatim>\<open>x.get(k, d)\<close>: only a dict has the method.\<close>

fun py_get :: "json \<Rightarrow> string \<Rightarrow> json \<Rightarrow> exn + json" where
  "py_get (JObject kvs) k d = Inr (case map_of kvs k of Some v \<Rightarrow> v | None \<Rightarrow> d)"
| "py_get _ k d = Inl AttributeError"

text \<open>\<^verbatim>\<open>x[0]\<close>. The keys of a dict that comes from JSON are strings, so 0 is never one.\<close>

fun py_index0 :: "json \<Rightarrow> exn + json" where
  "py_index0 (JArray []) = Inl IndexError"
| "py_index0 (JArray (x # xs)) = Inr x"
| "py_index0 (JString []) = Inl IndexError"
| "py_index0 (JString (c # cs)) = Inr (JString [c])"
| "py_index0 (JObject kvs) = Inl KeyError"
| "py_index0 _ = Inl TypeError"

text \<open>\<^verbatim>\<open>for item in x\<close>: a list gives its elements, a dict its keys, a string its characters.\<close>

fun py_iter :: "json \<Rightarrow> exn + json list" where
  "py_iter (JArray xs) = Inr xs"
| "py_iter (JObject kvs) = Inr (map (\<lambda>kv. JString (fst kv)) kvs)"
| "py_iter (JString s) = Inr (map (\<lambda>c. JString [c]) s)"
| "py_iter _ = Inl TypeError"

text \<open>Lists and dicts cannot be dict keys.\<close>

fun hashable :: "json \<Rightarrow> bool" where
  "hashable (JArray xs) = False"
| "hashable (JObject kvs) = False"
| "hashable _ = True"

section \<open>The DLQ status reporter\<close>

subsection \<open>Field extraction and status mapping\<close>

text \<open>
  The dict comprehension of \<^verbatim>\<open>get_key_and_event_type\<close>, one item at a time: the key
  expression, the value expression, then the insertion, which hashes the key. The dict is
  a map; a later item with the same name replaces an earlier one. (Python identifies the
  keys \<^verbatim>\<open>1\<close>, \<^verbatim>\<open>1.0\<close> and \<^verbatim>\<open>True\<close>; the map is only ever read at two string keys.)
\<close>

fun env_map_of :: "json list \<Rightarrow> (json \<rightharpoonup> json) \<Rightarrow> exn + (json \<rightharpoonup> json)" where
  "env_map_of [] m = Inr m"
| "env_map_of (item # items) m =
     (case py_get item ''name'' JNull of
        Inl e \<Rightarrow> Inl e
      | Inr n \<Rightarrow>
         (case py_get item ''value'' JNull of
            Inl e \<Rightarrow> Inl e
          | Inr v \<Rightarrow> if hashable n then env_map_of items (m(n \<mapsto> v)) else Inl TypeError))"

definition map_get :: "(json \<rightharpoonup> json) \<Rightarrow> string \<Rightarrow> json" where
  "map_get m k = (case m (JString k) of Some v \<Rightarrow> v | None \<Rightarrow> JNull)"

definition get_key_and_event_type :: "json \<Rightarrow> exn + (json \<times> json)" where
  "get_key_and_event_type overrides =
     (if \<not> truthy overrides then Inr (JNull, JNull)
      else case py_index0 overrides of
        Inl e \<Rightarrow> Inl e
      | Inr first \<Rightarrow>
         (case py_get first ''environment'' (JArray []) of
            Inl e \<Rightarrow> Inl e
          | Inr env_list \<Rightarrow>
             (case py_iter env_list of
                Inl e \<Rightarrow> Inl e
              | Inr items \<Rightarrow>
                 (case env_map_of items Map.empty of
                    Inl e \<Rightarrow> Inl e
                  | Inr env_map \<Rightarrow>
                      Inr (map_get env_map ''S3_OBJECT_KEY'', map_get env_map ''EVENT_TYPE'')))))"

definition status_from_event_type :: "json \<Rightarrow> string option" where
  "status_from_event_type event_type =
     (if event_type = JString ''Object Created'' then Some ''failed''
      else if event_type = JString ''Object Deleted'' then Some ''delete_failed''
      else None)"

subsection \<open>The document id: \<^verbatim>\<open>Path(key).stem\<close>\<close>

text \<open>
  \<^verbatim>\<open>pathlib\<close> on the POSIX flavour: the path is split at \<^verbatim>\<open>/\<close>, empty components and
  \<^verbatim>\<open>.\<close> components are dropped, the name is the last component left (the empty string
  when there is none), and the stem cuts the name at its last dot unless that dot is the
  first or the last character (\<^verbatim>\<open>PurePath.stem\<close> of CPython up to 3.13).
\<close>

fun split_on :: "char \<Rightarrow> string \<Rightarrow> string list" where
  "split_on c [] = [[]]"
| "split_on c (x # xs) =
     (if x = c then [] # split_on c xs
      else case split_on c xs of
             [] \<Rightarrow> [[x]]
           | p # ps \<Rightarrow> (x # p) # ps)"

definition path_name :: "string \<Rightarrow> string" where
  "path_name key =
     (case filter (\<lambda>p. p \<noteq> [] \<and> p \<noteq> ''.'') (split_on CHR ''/'' key) of
        [] \<Rightarrow> []
      | p # ps \<Rightarrow> last (p # ps))"

text \<open>\<^verbatim>\<open>s.rfind(c)\<close>: the index of the last occurrence, or -1.\<close>

definition rfind :: "string \<Rightarrow> char \<Rightarrow> int" where
  "rfind s c =
     (if c \<in> set s then int (length s) - 1 - int (length (takeWhile (\<lambda>x. x \<noteq> c) (rev s)))
      else - 1)"

definition path_stem :: "string \<Rightarrow> string" where
  "path_stem key =
     (let name = path_name key; i = rfind name CHR ''.''
      in if 0 < i \<and> i < int (length name) - 1 then take (nat i) name else name)"

text \<open>\<^verbatim>\<open>Path(key)\<close> accepts a string and raises \<^verbatim>\<open>TypeError\<close> on any other JSON value.\<close>

fun document_id_of :: "json \<Rightarrow> exn + string" where
  "document_id_of (JString key) = Inr (path_stem key)"
| "document_id_of _ = Inl TypeError"

subsection \<open>Effects\<close>

text \<open>
  A request as \<^verbatim>\<open>patch_status\<close> builds it. \<open>req_data\<close> is the object handed to
  \<^verbatim>\<open>json.dumps\<close>; the headers are listed in the order of the \<^verbatim>\<open>add_header\<close> calls.
\<close>

record request =
  req_url :: string
  req_data :: json
  req_method :: string
  req_headers :: "(string \<times> string) list"

record http_response =
  resp_code :: nat
  resp_body :: string

text \<open>
  What an invocation does to the outside world is the list of its effects, in order:
  log lines (the message only; the keyword arguments of the log calls are evaluated on
  values whose type is already established and never raise), secret lookups, and HTTP
  calls with their timeout.
\<close>

datatype event =
    LogInfo string
  | LogError string
  | LogException string
  | GetSecretValue "string option"
  | UrlOpen request nat

fun is_UrlOpen :: "event \<Rightarrow> bool" where
  "is_UrlOpen (UrlOpen r t) = True"
| "is_UrlOpen _ = False"

fun is_GetSecretValue :: "event \<Rightarrow> bool" where
  "is_GetSecretValue (GetSecretValue a) = True"
| "is_GetSecretValue _ = False"

text \<open>
  The module's configuration and the library calls it depends on. \<open>json_loads\<close> is
  \<^verbatim>\<open>json.loads\<close>: it returns a value or raises, \<^verbatim>\<open>JSONDecodeError\<close> on text that is not
  JSON and other exceptions besides (\<^verbatim>\<open>RecursionError\<close> on deep nesting, a plain
  \<^verbatim>\<open>ValueError\<close> on an integer beyond the digit limit). \<open>Request\<close> is the constructor
  \<^verbatim>\<open>request.Request(url, ...)\<close>, which takes the URL apart and raises \<^verbatim>\<open>ValueError\<close> when
  it cannot, for a URL without a scheme for instance; \<open>None\<close> says that it returned.
  \<open>get_secret_value\<close> is the Secrets Manager call: it raises, or returns a response
  whose \<^verbatim>\<open>SecretString\<close> entry may be absent. \<open>http_exchange\<close> is the exchange with the
  management API: it raises (a network error as \<^verbatim>\<open>URLError\<close>, anything else as it
  comes), or returns the response with its status code. The last two may answer
  differently each time: they are given the effects so far. The \<^verbatim>\<open>logger\<close> module is not among the sources; its
  three functions are taken to record their message and return.
\<close>

record env =
  ALB_BASE_URL :: string
  DOCS_API_PATH :: string
  TOKEN_SECRET_ARN :: string
  ORIGIN_VERIFY_ARN :: "string option"
  json_loads :: "string \<Rightarrow> exn + json"
  Request :: "string \<Rightarrow> exn option"
  get_secret_value :: "event list \<Rightarrow> string option \<Rightarrow> exn + string option"
  http_exchange :: "event list \<Rightarrow> request \<Rightarrow> exn + http_response"

text \<open>
  \<^verbatim>\<open>request.urlopen\<close> followed by \<^verbatim>\<open>resp.read()\<close>. The default opener of \<^verbatim>\<open>urllib\<close> hands a
  response back only when its status is 2xx; for any other status of a PATCH it raises
  \<^verbatim>\<open>HTTPError\<close> with the code and the body.
\<close>

definition urlopen :: "env \<Rightarrow> event list \<Rightarrow> request \<Rightarrow> exn + http_response" where
  "urlopen env tr req =
     (case http_exchange env tr req of
        Inl e \<Rightarrow> Inl e
      | Inr resp \<Rightarrow>
          if 200 \<le> resp_code resp \<and> resp_code resp < 300 then Inr resp
          else Inl (HTTPError (resp_code resp) (resp_body resp)))"

subsection \<open>Secrets\<close>

definition get_origin_verify_secret :: "env \<Rightarrow> event list \<Rightarrow> (exn + string) \<times> event list" where
  "get_origin_verify_secret env tr =
     (let tr1 = tr @ [LogInfo ''Fetching Origin Verify Secret token from Secrets Manager''];
          tr2 = tr1 @ [GetSecretValue (ORIGIN_VERIFY_ARN env)]
      in case get_secret_value env tr1 (ORIGIN_VERIFY_ARN env) of
           Inl e \<Rightarrow>
             (Inl e, tr2 @ [LogException ''Failed to fetch Origin Verify Secret from Secrets Manager''])
         | Inr None \<Rightarrow>
             (Inl KeyError,
              tr2 @ [LogInfo ''Successfully fetched Origin Verify Secret'',
                     LogException ''Failed to fetch Origin Verify Secret from Secrets Manager''])
         | Inr (Some secret) \<Rightarrow>
             (Inr secret, tr2 @ [LogInfo ''Successfully fetched Origin Verify Secret'']))"

definition get_ingestion_token :: "env \<Rightarrow> event list \<Rightarrow> (exn + string) \<times> event list" where
  "get_ingestion_token env tr =
     (let tr1 = tr @ [LogInfo ''Fetching ingestion API token from Secrets Manager''];
          tr2 = tr1 @ [GetSecretValue (Some (TOKEN_SECRET_ARN env))]
      in case get_secret_value env tr1 (Some (TOKEN_SECRET_ARN env)) of
           Inl e \<Rightarrow>
             (Inl e, tr2 @ [LogException ''Failed to fetch ingestion API token from Secrets Manager''])
         | Inr None \<Rightarrow>
             (Inl KeyError,
              tr2 @ [LogException ''Failed to fetch ingestion API token from Secrets Manager''])
         | Inr (Some secret) \<Rightarrow>
             (Inr secret, tr2 @ [LogInfo ''Successfully fetched ingestion API token'']))"

subsection \<open>Reporting\<close>

definition patch_request :: "env \<Rightarrow> string \<Rightarrow> string \<Rightarrow> string \<Rightarrow> string \<Rightarrow> request" where
  "patch_request env document_id status token origin_secret =
     \<lparr> req_url = ALB_BASE_URL env @ DOCS_API_PATH env @ ''/'' @ document_id,
       req_data = JObject [(''status'', JString status)],
       req_method = ''PATCH'',
       req_headers = [(''Content-Type'', ''application/json''),
                      (''x-api-token'', token),
                      (''X-Origin-Verify'', origin_secret)] \<rparr>"

text \<open>
  The request is built after the log line and before the \<^verbatim>\<open>try\<close>: when the constructor
  raises, the exception leaves \<open>patch_status\<close> with nothing sent and nothing more logged.
\<close>

definition patch_status ::
  "env \<Rightarrow> string \<Rightarrow> string \<Rightarrow> string \<Rightarrow> string \<Rightarrow> event list \<Rightarrow> (exn + unit) \<times> event list" where
  "patch_status env document_id status token origin_secret tr =
     (let req = patch_request env document_id status token origin_secret;
          tr1 = tr @ [LogInfo ''Patching document status via management-api'']
      in case Request env (req_url req) of
           Some e \<Rightarrow> (Inl e, tr1)
         | None \<Rightarrow>
            (let tr2 = tr1 @ [UrlOpen req 30]
             in case urlopen env tr1 req of
                  Inr resp \<Rightarrow> (Inr (), tr2 @ [LogInfo ''Patch status response''])
                | Inl (HTTPError code body) \<Rightarrow>
                    (Inl (HTTPError code body),
                     tr2 @ [LogError ''HTTPError while patching document status''])
                | Inl (URLError reason) \<Rightarrow>
                    (Inl (URLError reason),
                     tr2 @ [LogError ''URLError while patching document status''])
                | Inl e \<Rightarrow> (Inl e, tr2)))"

subsection \<open>The two payload shapes\<close>

definition handle_run_task_dlq ::
  "env \<Rightarrow> json \<Rightarrow> string \<Rightarrow> string \<Rightarrow> event list \<Rightarrow> (exn + unit) \<times> event list" where
  "handle_run_task_dlq env payload token origin_secret tr =
     (case py_get payload ''containerOverrides'' (JArray []) of
        Inl e \<Rightarrow> (Inl e, tr)
      | Inr overrides \<Rightarrow>
         (case get_key_and_event_type overrides of
            Inl e \<Rightarrow> (Inl e, tr)
          | Inr (key, event_type) \<Rightarrow>
              if \<not> truthy key \<or> \<not> truthy event_type then
                (Inr (), tr @ [LogError ''Missing S3_OBJECT_KEY or EVENT_TYPE in RunTask payload; skipping''])
              else
                (case status_from_event_type event_type of
                   None \<Rightarrow> (Inr (), tr @ [LogError ''Unknown EVENT_TYPE in RunTask payload; skipping''])
                 | Some status \<Rightarrow>
                     if status = [] then
                       (Inr (), tr @ [LogError ''Unknown EVENT_TYPE in RunTask payload; skipping''])
                     else
                       (case document_id_of key of
                          Inl e \<Rightarrow> (Inl e, tr)
                        | Inr document_id \<Rightarrow>
                            patch_status env document_id status token origin_secret
                              (tr @ [LogInfo ''Handling RunTask DLQ message''])))))"

definition handle_ecs_task_failure ::
  "env \<Rightarrow> json \<Rightarrow> string \<Rightarrow> string \<Rightarrow> event list \<Rightarrow> (exn + unit) \<times> event list" where
  "handle_ecs_task_failure env payload token origin_secret tr =
     (case py_get payload ''detail'' (JObject []) of
        Inl e \<Rightarrow> (Inl e, tr)
      | Inr detail \<Rightarrow>
         (case py_get detail ''overrides'' (JObject []) of
            Inl e \<Rightarrow> (Inl e, tr)
          | Inr ov \<Rightarrow>
             (case py_get ov ''containerOverrides'' (JArray []) of
                Inl e \<Rightarrow> (Inl e, tr)
              | Inr overrides \<Rightarrow>
                 (case get_key_and_event_type overrides of
                    Inl e \<Rightarrow> (Inl e, tr)
                  | Inr (key, event_type) \<Rightarrow>
                      if \<not> truthy key \<or> \<not> truthy event_type then
                        (Inr (), tr @ [LogError ''Missing S3_OBJECT_KEY or EVENT_TYPE in ECS detail; skipping''])
                      else
                        (case status_from_event_type event_type of
                           None \<Rightarrow> (Inr (), tr @ [LogError ''Unknown EVENT_TYPE in ECS detail; skipping''])
                         | Some status \<Rightarrow>
                             if status = [] then
                               (Inr (), tr @ [LogError ''Unknown EVENT_TYPE in ECS detail; skipping''])
                             else
                               (case document_id_of key of
                                  Inl e \<Rightarrow> (Inl e, tr)
                                | Inr document_id \<Rightarrow>
                                    patch_status env document_id status token origin_secret
                                      (tr @ [LogInfo ''Handling ECS Task failure event''])))))))"

subsection \<open>The handler\<close>

text \<open>
  An SQS record, with its \<^verbatim>\<open>body\<close> entry if it has one, and the Lambda event, with its
  \<^verbatim>\<open>Records\<close> entry if it has one.
\<close>

record sqs_record =
  body :: "string option"

record lambda_event =
  Records :: "sqs_record list option"

text \<open>\<^verbatim>\<open>record.get("body", "")\<close>\<close>

definition body_text :: "sqs_record \<Rightarrow> string" where
  "body_text r = (case body r of Some s \<Rightarrow> s | None \<Rightarrow> [])"

text \<open>
  One turn of the loop over the records. Only \<^verbatim>\<open>JSONDecodeError\<close> is caught; any other
  exception of \<^verbatim>\<open>json.loads\<close> leaves the handler. The lookup of
  \<^verbatim>\<open>detail-type\<close> is a method call on whatever \<^verbatim>\<open>json.loads\<close> returned; past it the payload
  is a dict, and \<^verbatim>\<open>"containerOverrides" in payload\<close> tests its keys.
\<close>

definition process_record ::
  "env \<Rightarrow> string \<Rightarrow> string \<Rightarrow> sqs_record \<Rightarrow> event list \<Rightarrow> (exn + unit) \<times> event list" where
  "process_record env token origin_secret record tr =
     (let b = body_text record
      in case json_loads env b of
           Inl e \<Rightarrow>
             if e = JSONDecodeError
             then (Inr (), tr @ [LogError ''Bad JSON body in SQS message; skipping''])
             else (Inl e, tr)
         | Inr payload \<Rightarrow>
            (case payload of
               JObject kvs \<Rightarrow>
                 (case py_get payload ''detail-type'' JNull of
                    Inl e \<Rightarrow> (Inl e, tr)
                  | Inr detail_type \<Rightarrow>
                      if detail_type = JString ''ECS Task State Change'' then
                        handle_ecs_task_failure env payload token origin_secret tr
                      else if ''containerOverrides'' \<in> fst ` set kvs then
                        handle_run_task_dlq env payload token origin_secret tr
                      else
                        (Inr (), tr @ [LogError ''Unrecognized payload shape; skipping'']))
             | _ \<Rightarrow> (Inl AttributeError, tr)))"

fun process_records ::
  "env \<Rightarrow> string \<Rightarrow> string \<Rightarrow> sqs_record list \<Rightarrow> event list \<Rightarrow> (exn + unit) \<times> event list" where
  "process_records env token origin_secret [] tr = (Inr (), tr)"
| "process_records env token origin_secret (r # rs) tr =
     (case process_record env token origin_secret r tr of
        (Inl e, tr') \<Rightarrow> (Inl e, tr')
      | (Inr u, tr') \<Rightarrow> process_records env token origin_secret rs tr')"

definition handler :: "env \<Rightarrow> lambda_event \<Rightarrow> (exn + unit) \<times> event list" where
  "handler env event =
     (let records = (case Records event of Some rs \<Rightarrow> rs | None \<Rightarrow> []);
          tr = [LogInfo ''Status DLQ Lambda invocation received'']
      in if records = [] then (Inr (), tr @ [LogInfo ''No records in event; nothing to process''])
         else
           (case get_ingestion_token env tr of
              (Inl e, tr1) \<Rightarrow>
                (Inl e, tr1 @ [LogException ''Aborting batch: could not fetch ingestion token''])
            | (Inr token, tr1) \<Rightarrow>
               (case get_origin_verify_secret env tr1 of
                  (Inl e, tr2) \<Rightarrow>
                    (Inl e, tr2 @ [LogException ''Aborting batch: could not fetch Origin Verify Secret''])
                | (Inr origin_secret, tr2) \<Rightarrow> process_records env token origin_secret records tr2)))"

section \<open>The extension initializer\<close>







section \<open>Notions used to state and prove the properties\<close>

text \<open>
  The place an ECS task-state-change payload keeps its overrides:
  \<^verbatim>\<open>payload.get("detail", {}).get("overrides", {}).get("containerOverrides", [])\<close>.
\<close>

definition detail_overrides :: "json \<Rightarrow> exn + json" where
  "detail_overrides payload =
     (case py_get payload ''detail'' (JObject []) of
        Inl e \<Rightarrow> Inl e
      | Inr detail \<Rightarrow>
         (case py_get detail ''overrides'' (JObject []) of
            Inl e \<Rightarrow> Inl e
          | Inr ov \<Rightarrow> py_get ov ''containerOverrides'' (JArray [])))"

text \<open>
  The overrides value that the handler passes to \<open>get_key_and_event_type\<close> for a payload,
  when it gets that far: the nested one for a task-state-change payload, the top-level one
  for a payload that has the key, none for any other payload.
\<close>

definition message_overrides :: "json \<Rightarrow> json option" where
  "message_overrides payload =
     (case payload of
        JObject kvs \<Rightarrow>
          if map_of kvs ''detail-type'' = Some (JString ''ECS Task State Change'') then
            (case detail_overrides payload of Inl e \<Rightarrow> None | Inr ov \<Rightarrow> Some ov)
          else map_of kvs ''containerOverrides''
      | _ \<Rightarrow> None)"

text \<open>
  An environment list as the trigger payloads have it: every item is an object, and its
  name can be a dict key. \<open>env_value k items\<close> is the value of the last item named \<open>k\<close>,
  \<^verbatim>\<open>None\<close> when no item has that name.
\<close>

fun env_item :: "json \<Rightarrow> bool" where
  "env_item (JObject kvs) = hashable (case map_of kvs ''name'' of Some n \<Rightarrow> n | None \<Rightarrow> JNull)"
| "env_item _ = False"

fun env_lookup :: "string \<Rightarrow> json \<Rightarrow> json list \<Rightarrow> json" where
  "env_lookup k d [] = d"
| "env_lookup k d (item # items) =
     env_lookup k
       (if py_get item ''name'' JNull = Inr (JString k)
        then (case py_get item ''value'' JNull of Inr v \<Rightarrow> v | Inl e \<Rightarrow> JNull)
        else d)
       items"

definition env_value :: "string \<Rightarrow> json list \<Rightarrow> json" where
  "env_value k items = env_lookup k JNull items"

text \<open>The requests of the HTTP calls in a list of effects, and those one record adds.\<close>

fun patches_of :: "event list \<Rightarrow> request list" where
  "patches_of [] = []"
| "patches_of (UrlOpen req t # evs) = req # patches_of evs"
| "patches_of (ev # evs) = patches_of evs"

definition record_patches :: "env \<Rightarrow> string \<Rightarrow> string \<Rightarrow> sqs_record \<Rightarrow> event list \<Rightarrow> request list" where
  "record_patches env token origin_secret r tr =
     patches_of (drop (length tr) (snd (process_record env token origin_secret r tr)))"

text \<open>
  What the two payload handlers do once they have the overrides, as a value: raise, skip
  for a missing field, skip for an unknown event type, or report a status for a document.
\<close>

datatype decision = Raises exn | Missing | Unknown | Report string string

definition decide :: "exn + json \<Rightarrow> decision" where
  "decide ov =
     (case ov of
        Inl e \<Rightarrow> Raises e
      | Inr overrides \<Rightarrow>
         (case get_key_and_event_type overrides of
            Inl e \<Rightarrow> Raises e
          | Inr (key, event_type) \<Rightarrow>
              if \<not> truthy key \<or> \<not> truthy event_type then Missing
              else (case status_from_event_type event_type of
                      None \<Rightarrow> Unknown
                    | Some status \<Rightarrow>
                       (case document_id_of key of
                          Inl e \<Rightarrow> Raises e
                        | Inr document_id \<Rightarrow> Report document_id status))))"

text \<open>The same for a whole record: raise, skip with a log line, or report.\<close>

datatype verdict = Raise exn | Skip string | Patch string string string

definition record_verdict :: "env \<Rightarrow> sqs_record \<Rightarrow> verdict" where
  "record_verdict env r =
     (case json_loads env (body_text r) of
        Inl e \<Rightarrow>
          if e = JSONDecodeError then Skip ''Bad JSON body in SQS message; skipping''
          else Raise e
      | Inr (JObject kvs) \<Rightarrow>
          if map_of kvs ''detail-type'' = Some (JString ''ECS Task State Change'') then
            (case decide (detail_overrides (JObject kvs)) of
               Raises e \<Rightarrow> Raise e
             | Missing \<Rightarrow> Skip ''Missing S3_OBJECT_KEY or EVENT_TYPE in ECS detail; skipping''
             | Unknown \<Rightarrow> Skip ''Unknown EVENT_TYPE in ECS detail; skipping''
             | Report d s \<Rightarrow> Patch ''Handling ECS Task failure event'' d s)
          else if map_of kvs ''containerOverrides'' \<noteq> None then
            (case decide (py_get (JObject kvs) ''containerOverrides'' (JArray [])) of
               Raises e \<Rightarrow> Raise e
             | Missing \<Rightarrow> Skip ''Missing S3_OBJECT_KEY or EVENT_TYPE in RunTask payload; skipping''
             | Unknown \<Rightarrow> Skip ''Unknown EVENT_TYPE in RunTask payload; skipping''
             | Report d s \<Rightarrow> Patch ''Handling RunTask DLQ message'' d s)
          else Skip ''Unrecognized payload shape; skipping''
      | Inr _ \<Rightarrow> Raise AttributeError)"

definition patch_log :: event where
  "patch_log = LogInfo ''Patching document status via management-api''"

definition received_log :: event where
  "received_log = LogInfo ''Status DLQ Lambda invocation received''"

fun raised :: "exn + 'a \<Rightarrow> exn + unit" where
  "raised (Inl e) = Inl e"
| "raised (Inr x) = Inr ()"

definition quiet :: "event list \<Rightarrow> bool" where
  "quiet l = (\<forall>ev\<in>set l. \<not> is_UrlOpen ev)"

definition calm :: "event list \<Rightarrow> bool" where
  "calm l = (\<forall>ev\<in>set l. \<not> is_GetSecretValue ev)"

section \<open>Sample messages and environments\<close>

text \<open>
  Message bodies as they arrive, with the value \<^verbatim>\<open>json.loads\<close> returns for each: the
  task-state-change event of the specification, a direct run-task payload, a payload
  that carries the two fields in its second override only, one with an event type that is
  neither creation nor deletion, one whose first override is \<^verbatim>\<open>null\<close>, one whose first
  environment list starts with a string, an object of neither shape, and a JSON array.
  The table \<open>example_loads\<close> holds these bodies; it is read at no other body than the
  text \<^verbatim>\<open>{not json\<close>, which is not JSON.
\<close>

definition env_pair :: "string \<Rightarrow> string \<Rightarrow> json" where
  "env_pair n v = JObject [(''name'', JString n), (''value'', JString v)]"

definition ecs_created_body :: string where
  \<open>ecs_created_body = ''{"detail-type":"ECS Task State Change","detail":{"overrides":{"containerOverrides":[{"environment":[{"name":"S3_OBJECT_KEY","value":"foo/bar.txt"},{"name":"EVENT_TYPE","value":"Object Created"}]}]}}}''\<close>

definition ecs_created_payload :: json where
  "ecs_created_payload =
     JObject [(''detail-type'', JString ''ECS Task State Change''),
              (''detail'', JObject [(''overrides'', JObject [(''containerOverrides'',
                 JArray [JObject [(''environment'',
                   JArray [env_pair ''S3_OBJECT_KEY'' ''foo/bar.txt'',
                           env_pair ''EVENT_TYPE'' ''Object Created''])]])])])]"

definition run_deleted_body :: string where
  \<open>run_deleted_body = ''{"containerOverrides":[{"environment":[{"name":"S3_OBJECT_KEY","value":"documents/abc123.pdf"},{"name":"EVENT_TYPE","value":"Object Deleted"}]}]}''\<close>

definition run_deleted_payload :: json where
  "run_deleted_payload =
     JObject [(''containerOverrides'',
       JArray [JObject [(''environment'',
         JArray [env_pair ''S3_OBJECT_KEY'' ''documents/abc123.pdf'',
                 env_pair ''EVENT_TYPE'' ''Object Deleted''])]])]"

definition second_override_body :: string where
  \<open>second_override_body = ''{"containerOverrides":[{"environment":[]},{"environment":[{"name":"S3_OBJECT_KEY","value":"foo/bar.txt"},{"name":"EVENT_TYPE","value":"Object Created"}]}]}''\<close>

definition second_override_payload :: json where
  "second_override_payload =
     JObject [(''containerOverrides'',
       JArray [JObject [(''environment'', JArray [])],
               JObject [(''environment'',
                 JArray [env_pair ''S3_OBJECT_KEY'' ''foo/bar.txt'',
                         env_pair ''EVENT_TYPE'' ''Object Created''])]])]"

definition restored_body :: string where
  \<open>restored_body = ''{"containerOverrides":[{"environment":[{"name":"S3_OBJECT_KEY","value":"foo/bar.txt"},{"name":"EVENT_TYPE","value":"Object Restored"}]}]}''\<close>

definition restored_payload :: json where
  "restored_payload =
     JObject [(''containerOverrides'',
       JArray [JObject [(''environment'',
         JArray [env_pair ''S3_OBJECT_KEY'' ''foo/bar.txt'',
                 env_pair ''EVENT_TYPE'' ''Object Restored''])]])]"

definition other_shape_body :: string where
  \<open>other_shape_body = ''{"source":"aws.events"}''\<close>

definition null_first_body :: string where
  \<open>null_first_body = ''{"containerOverrides":[null,{"environment":[{"name":"S3_OBJECT_KEY","value":"foo/bar.txt"},{"name":"EVENT_TYPE","value":"Object Created"}]}]}''\<close>

definition null_first_payload :: json where
  "null_first_payload =
     JObject [(''containerOverrides'',
       JArray [JNull,
               JObject [(''environment'',
                 JArray [env_pair ''S3_OBJECT_KEY'' ''foo/bar.txt'',
                         env_pair ''EVENT_TYPE'' ''Object Created''])]])]"

definition junk_item_body :: string where
  \<open>junk_item_body = ''{"containerOverrides":[{"environment":["junk",{"name":"S3_OBJECT_KEY","value":"foo/bar.txt"},{"name":"EVENT_TYPE","value":"Object Created"}]}]}''\<close>

definition junk_item_payload :: json where
  "junk_item_payload =
     JObject [(''containerOverrides'',
       JArray [JObject [(''environment'',
         JArray [JString ''junk'',
                 env_pair ''S3_OBJECT_KEY'' ''foo/bar.txt'',
                 env_pair ''EVENT_TYPE'' ''Object Created''])]])]"

definition example_loads :: "string \<Rightarrow> exn + json" where
  "example_loads s =
     (if s = ecs_created_body then Inr ecs_created_payload
      else if s = run_deleted_body then Inr run_deleted_payload
      else if s = second_override_body then Inr second_override_payload
      else if s = restored_body then Inr restored_payload
      else if s = null_first_body then Inr null_first_payload
      else if s = junk_item_body then Inr junk_item_payload
      else if s = other_shape_body then Inr (JObject [(''source'', JString ''aws.events'')])
      else if s = ''[]'' then Inr (JArray [])
      else Inl JSONDecodeError)"



text \<open>
  The scheme test of \<^verbatim>\<open>Request\<close>: a scheme is a non-empty run of characters other than
  \<^verbatim>\<open>/\<close> and \<^verbatim>\<open>:\<close> at the start of the URL, followed by a colon. In the sample
  environments \<^verbatim>\<open>Request\<close> raises on a URL that fails this test and accepts the others;
  the URLs they build hold no whitespace, fragment or bracket.
\<close>

definition url_has_type :: "string \<Rightarrow> bool" where
  "url_has_type url =
     (let scheme = takeWhile (\<lambda>c. c \<noteq> CHR ''/'' \<and> c \<noteq> CHR '':'') url
      in scheme \<noteq> [] \<and> take 1 (drop (length scheme) url) = '':'')"

text \<open>
  An environment in which both secrets are there and the management API answers 200, one
  in which every call to the API ends in a network error, one in which the API answers
  503, one without the origin-verification secret, one whose base URL lacks the scheme,
  and one that receives the deeply nested body.
\<close>

definition example_env :: env where
  "example_env =
     \<lparr> ALB_BASE_URL = ''http://alb.internal'',
       DOCS_API_PATH = ''/api/documents'',
       TOKEN_SECRET_ARN = ''arn:token'',
       ORIGIN_VERIFY_ARN = Some ''arn:origin'',
       json_loads = example_loads,
       Request = (\<lambda>url. if url_has_type url then None else Some ValueError),
       get_secret_value =
         (\<lambda>tr arn. if arn = Some ''arn:token'' then Inr (Some ''t0k'')
                   else if arn = Some ''arn:origin'' then Inr (Some ''s3c'')
                   else Inl (OtherException ''ResourceNotFoundException'')),
       http_exchange = (\<lambda>tr req. Inr \<lparr> resp_code = 200, resp_body = ''{}'' \<rparr>) \<rparr>"

definition unreachable_env :: env where
  "unreachable_env = example_env \<lparr> http_exchange := (\<lambda>tr req. Inl (URLError ''timed out'')) \<rparr>"

definition overloaded_env :: env where
  "overloaded_env =
     example_env \<lparr> http_exchange := (\<lambda>tr req. Inr \<lparr> resp_code = 503, resp_body = ''busy'' \<rparr>) \<rparr>"

definition no_origin_env :: env where
  "no_origin_env = example_env \<lparr> ORIGIN_VERIFY_ARN := None \<rparr>"

definition schemeless_env :: env where
  "schemeless_env = example_env \<lparr> ALB_BASE_URL := ''alb.internal'' \<rparr>"




section \<open>Properties of the DLQ status reporter\<close>

subsection \<open>What one record does\<close>

lemma status_nonempty: "status_from_event_type et = Some s \<Longrightarrow> s \<noteq> []"
  by (auto simp: status_from_event_type_def split: if_splits)

lemma patch_status_refused:
  "Request env (req_url (patch_request env d s tok sec)) = Some e \<Longrightarrow>
   patch_status env d s tok sec tr = (Inl e, tr @ [patch_log])"
  by (simp add: patch_status_def patch_log_def)

lemma patch_status_fst:
  "Request env (req_url (patch_request env d s tok sec)) = None \<Longrightarrow>
   fst (patch_status env d s tok sec tr) =
     raised (urlopen env (tr @ [patch_log]) (patch_request env d s tok sec))"
  by (simp add: patch_status_def patch_log_def Let_def split: sum.splits exn.splits)

lemma patch_status_snd:
  "Request env (req_url (patch_request env d s tok sec)) = None \<Longrightarrow>
   \<exists>l. snd (patch_status env d s tok sec tr) =
         tr @ patch_log # UrlOpen (patch_request env d s tok sec) 30 # l
       \<and> length l \<le> 1 \<and> (\<forall>ev\<in>set l. \<not> is_UrlOpen ev \<and> \<not> is_GetSecretValue ev)"
  by (simp add: patch_status_def patch_log_def Let_def split: sum.splits exn.splits)

lemma handle_run_task_dlq_decide:
  "handle_run_task_dlq env payload tok sec tr =
     (case decide (py_get payload ''containerOverrides'' (JArray [])) of
        Raises e \<Rightarrow> (Inl e, tr)
      | Missing \<Rightarrow> (Inr (), tr @ [LogError ''Missing S3_OBJECT_KEY or EVENT_TYPE in RunTask payload; skipping''])
      | Unknown \<Rightarrow> (Inr (), tr @ [LogError ''Unknown EVENT_TYPE in RunTask payload; skipping''])
      | Report d s \<Rightarrow> patch_status env d s tok sec (tr @ [LogInfo ''Handling RunTask DLQ message'']))"
  by (auto simp: handle_run_task_dlq_def decide_def dest: status_nonempty split: sum.splits option.splits prod.splits)

lemma handle_ecs_task_failure_decide:
  "handle_ecs_task_failure env payload tok sec tr =
     (case decide (detail_overrides payload) of
        Raises e \<Rightarrow> (Inl e, tr)
      | Missing \<Rightarrow> (Inr (), tr @ [LogError ''Missing S3_OBJECT_KEY or EVENT_TYPE in ECS detail; skipping''])
      | Unknown \<Rightarrow> (Inr (), tr @ [LogError ''Unknown EVENT_TYPE in ECS detail; skipping''])
      | Report d s \<Rightarrow> patch_status env d s tok sec (tr @ [LogInfo ''Handling ECS Task failure event'']))"
  by (auto simp: handle_ecs_task_failure_def decide_def detail_overrides_def dest: status_nonempty split: sum.splits option.splits prod.splits)


lemma in_keys_iff: "k \<in> fst ` set kvs \<longleftrightarrow> map_of kvs k \<noteq> None"
  by (simp add: map_of_eq_None_iff)

lemma process_record_verdict:
  "process_record env tok sec r tr =
     (case record_verdict env r of
        Raise e \<Rightarrow> (Inl e, tr)
      | Skip m \<Rightarrow> (Inr (), tr @ [LogError m])
      | Patch m d s \<Rightarrow> patch_status env d s tok sec (tr @ [LogInfo m]))"
  unfolding process_record_def record_verdict_def body_text_def Let_def in_keys_iff
    handle_run_task_dlq_decide handle_ecs_task_failure_decide
  by (simp split: sum.splits option.splits json.splits decision.splits)

lemma split_at_event:
  "xs @ ys = h @ a # rest \<Longrightarrow>
     (\<exists>r1. xs = h @ a # r1 \<and> rest = r1 @ ys) \<or> (\<exists>h2. h = xs @ h2 \<and> ys = h2 @ a # rest)"
  by (auto simp: append_eq_append_conv2 append_eq_Cons_conv)

lemma patch_status_run:
  "Request env (req_url (patch_request env d s tok sec)) = None \<Longrightarrow>
   \<exists>l. snd (patch_status env d s tok sec tr) =
         tr @ patch_log # UrlOpen (patch_request env d s tok sec) 30 # l
       \<and> quiet l \<and> calm l"
  using patch_status_snd [of env d s tok sec tr] by (auto simp: quiet_def calm_def)

lemma process_record_run:
  "\<exists>l. snd (process_record env tok sec r tr) = tr @ l \<and> calm l \<and>
     (\<forall>h req t rest. l = h @ UrlOpen req t # rest \<longrightarrow>
        quiet h \<and> quiet rest \<and> fst (process_record env tok sec r tr) = raised (urlopen env (tr @ h) req))"
proof (cases "record_verdict env r")
  case (Raise e)
  then show ?thesis by (simp add: process_record_verdict calm_def)
next
  case (Skip m)
  then have "snd (process_record env tok sec r tr) = tr @ [LogError m]"
    by (simp add: process_record_verdict)
  moreover have "\<And>h req t rest. [LogError m] \<noteq> h @ UrlOpen req t # rest"
    by (simp add: Cons_eq_append_conv)
  ultimately show ?thesis by (auto simp: calm_def)
next
  case (Patch m d s)
  let ?req = "patch_request env d s tok sec"
  show ?thesis
  proof (cases "Request env (req_url ?req)")
    case (Some e)
    then have "snd (process_record env tok sec r tr) = tr @ [LogInfo m, patch_log]"
      using Patch by (simp add: process_record_verdict patch_status_refused)
    moreover have "\<And>h req t rest. [LogInfo m, patch_log] \<noteq> h @ UrlOpen req t # rest"
      by (simp add: Cons_eq_append_conv patch_log_def)
    ultimately show ?thesis by (auto simp: calm_def patch_log_def)
  next
    case None
    obtain l where l: "snd (patch_status env d s tok sec (tr @ [LogInfo m])) =
        (tr @ [LogInfo m]) @ patch_log # UrlOpen ?req 30 # l" "quiet l" "calm l"
      using patch_status_run [OF None] by blast
    let ?l = "LogInfo m # patch_log # UrlOpen ?req 30 # l"
    have snd: "snd (process_record env tok sec r tr) = tr @ ?l"
      using Patch l by (simp add: process_record_verdict)
    have fst: "fst (process_record env tok sec r tr) = raised (urlopen env (tr @ [LogInfo m, patch_log]) ?req)"
      using Patch by (simp add: process_record_verdict patch_status_fst [OF None])
    have uniq: "h = [LogInfo m, patch_log] \<and> req = ?req \<and> rest = l"
      if "?l = h @ UrlOpen req t # rest" for h req t rest
      using that l(2) by (auto simp: Cons_eq_append_conv quiet_def patch_log_def)
    have "calm ?l" using l(3) by (simp add: calm_def patch_log_def)
    moreover have "quiet h \<and> quiet rest \<and> fst (process_record env tok sec r tr) = raised (urlopen env (tr @ h) req)"
      if "?l = h @ UrlOpen req t # rest" for h req t rest
      using uniq [OF that] l(2) fst by (simp add: quiet_def patch_log_def)
    ultimately show ?thesis using snd by blast
  qed
qed


lemma process_records_raise_append:
  "process_records env tok sec rs tr = (Inl e, tr') \<Longrightarrow>
   process_records env tok sec (rs @ post) tr = (Inl e, tr')"
  by (induction rs arbitrary: tr) (auto split: prod.splits sum.splits)

lemma process_records_run:
  "\<exists>l. snd (process_records env tok sec rs tr) = tr @ l \<and> calm l \<and>
     (\<forall>h req t rest e. l = h @ UrlOpen req t # rest \<and> urlopen env (tr @ h) req = Inl e \<longrightarrow>
        quiet rest \<and> fst (process_records env tok sec rs tr) = Inl e)"
proof (induction rs arbitrary: tr)
  case Nil
  show ?case by (simp add: calm_def)
next
  case (Cons r rs)
  obtain l1 where l1: "snd (process_record env tok sec r tr) = tr @ l1" "calm l1"
    and one: "\<And>h req t rest. l1 = h @ UrlOpen req t # rest \<Longrightarrow>
        quiet h \<and> quiet rest \<and> fst (process_record env tok sec r tr) = raised (urlopen env (tr @ h) req)"
    using process_record_run [of env tok sec r tr] by blast
  show ?case
  proof (cases "fst (process_record env tok sec r tr)")
    case (Inl e1)
    then have eq: "process_records env tok sec (r # rs) tr = (Inl e1, tr @ l1)"
      using l1(1) by (cases "process_record env tok sec r tr") simp
    have "quiet rest \<and> Inl e1 = (Inl e :: exn + unit)"
      if "l1 = h @ UrlOpen req t # rest" "urlopen env (tr @ h) req = Inl e" for h req t rest e
      using one [OF that(1)] that(2) Inl by simp
    then show ?thesis using eq l1(2) by auto
  next
    case (Inr u)
    then have eq: "process_records env tok sec (r # rs) tr = process_records env tok sec rs (tr @ l1)"
      using l1(1) by (cases "process_record env tok sec r tr") simp
    obtain l2 where l2: "snd (process_records env tok sec rs (tr @ l1)) = (tr @ l1) @ l2" "calm l2"
      and rest: "\<And>h req t rest e. l2 = h @ UrlOpen req t # rest \<Longrightarrow>
          urlopen env ((tr @ l1) @ h) req = Inl e \<Longrightarrow>
          quiet rest \<and> fst (process_records env tok sec rs (tr @ l1)) = Inl e"
      using Cons.IH [of "tr @ l1"] by blast
    have "quiet rest \<and> fst (process_records env tok sec rs (tr @ l1)) = Inl e"
      if split: "l1 @ l2 = h @ UrlOpen req t # rest" and fail: "urlopen env (tr @ h) req = Inl e"
      for h req t rest e
    proof -
      from split_at_event [OF split] show ?thesis
      proof (elim disjE exE conjE)
        fix r1 assume "l1 = h @ UrlOpen req t # r1" "rest = r1 @ l2"
        with one [of h req t r1] fail Inr show ?thesis by simp
      next
        fix h2 assume "h = l1 @ h2" "l2 = h2 @ UrlOpen req t # rest"
        with rest [of h2 req t rest e] fail show ?thesis by simp
      qed
    qed
    moreover have "calm (l1 @ l2)" using l1(2) l2(2) by (auto simp: calm_def)
    ultimately show ?thesis using eq l2(1) by (intro exI [of _ "l1 @ l2"]) auto
  qed
qed



lemma get_ingestion_token_run:
  "\<exists>p. snd (get_ingestion_token env tr) = tr @ p \<and> quiet p \<and>
       filter is_GetSecretValue p = [GetSecretValue (Some (TOKEN_SECRET_ARN env))]"
  by (simp add: get_ingestion_token_def Let_def quiet_def split: sum.splits option.splits)

lemma get_origin_verify_secret_run:
  "\<exists>p. snd (get_origin_verify_secret env tr) = tr @ p \<and> quiet p \<and>
       filter is_GetSecretValue p = [GetSecretValue (ORIGIN_VERIFY_ARN env)]"
  by (simp add: get_origin_verify_secret_def Let_def quiet_def split: sum.splits option.splits)

lemma handler_nonempty:
  "rs \<noteq> [] \<Longrightarrow> handler env \<lparr>Records = Some rs\<rparr> =
     (case get_ingestion_token env [received_log] of
        (Inl e, tr1) \<Rightarrow> (Inl e, tr1 @ [LogException ''Aborting batch: could not fetch ingestion token''])
      | (Inr token, tr1) \<Rightarrow>
         (case get_origin_verify_secret env tr1 of
            (Inl e, tr2) \<Rightarrow> (Inl e, tr2 @ [LogException ''Aborting batch: could not fetch Origin Verify Secret''])
          | (Inr origin_secret, tr2) \<Rightarrow> process_records env token origin_secret rs tr2))"
  by (simp add: handler_def received_log_def)

lemma quiet_no_UrlOpen: "quiet (h @ UrlOpen req t # rest) = False"
  by (simp add: quiet_def)

lemma quiet_append: "quiet (xs @ ys) = (quiet xs \<and> quiet ys)"
  by (auto simp: quiet_def)

lemmas sample_defs = example_env_def unreachable_env_def overloaded_env_def no_origin_env_def
  schemeless_env_def example_loads_def url_has_type_def null_first_body_def
  null_first_payload_def junk_item_body_def junk_item_payload_def
  ecs_created_body_def ecs_created_payload_def run_deleted_body_def run_deleted_payload_def
  second_override_body_def second_override_payload_def restored_body_def restored_payload_def
  other_shape_body_def env_pair_def

lemmas model_defs = handler_def process_record_def body_text_def handle_ecs_task_failure_def
  handle_run_task_dlq_def get_key_and_event_type_def status_from_event_type_def
  patch_status_def patch_request_def urlopen_def get_ingestion_token_def
  get_origin_verify_secret_def map_get_def path_stem_def path_name_def rfind_def

subsection \<open>A failed report halts the batch\<close>

text \<open>
  Claim C2. Take the run of the handler on a batch that ends with record \<open>r\<close>. If for
  some PATCH of that run, issued after the effects \<open>h\<close>, the exchange raises \<open>e\<close>, or
  returns a response outside 2xx, of which \<open>e\<close> is the \<^verbatim>\<open>HTTPError\<close>, then the handler
  raises \<open>e\<close>, no PATCH follows that one, and the run is the same, effect for effect,
  whatever records \<open>post\<close> follow \<open>r\<close> in the batch: none of them is processed.
\<close>

theorem patch_failure_halts_batch:
  assumes run: "handler env \<lparr>Records = Some (pre @ [r])\<rparr> = (res, h @ UrlOpen req t # rest)"
    and cause: "http_exchange env h req = Inl e \<or>
          (\<exists>resp. http_exchange env h req = Inr resp \<and>
             \<not> (200 \<le> resp_code resp \<and> resp_code resp < 300) \<and>
             e = HTTPError (resp_code resp) (resp_body resp))"
  shows "res = Inl e \<and> (\<forall>ev\<in>set rest. \<not> is_UrlOpen ev) \<and>
         handler env \<lparr>Records = Some (pre @ r # post)\<rparr> = (Inl e, h @ UrlOpen req t # rest)"
proof -
  have fail: "urlopen env h req = Inl e"
    using cause by (auto simp: urlopen_def)
  let ?t0 = "[received_log]"
  obtain r1 t1 where tok: "get_ingestion_token env ?t0 = (r1, t1)" by fastforce
  obtain p1 where p1: "t1 = ?t0 @ p1" "quiet p1"
    using get_ingestion_token_run [of env ?t0] tok by auto
  have q0: "quiet ?t0" by (simp add: quiet_def received_log_def)
  have ne: "pre @ [r] \<noteq> []" "pre @ r # post \<noteq> []" by simp_all
  show ?thesis
  proof (cases r1)
    case (Inl e1)
    then have "h @ UrlOpen req t # rest = t1 @ [LogException ''Aborting batch: could not fetch ingestion token'']"
      using run tok by (simp add: handler_nonempty [OF ne(1)])
    then have "quiet (h @ UrlOpen req t # rest)"
      using p1 q0 by (auto simp: quiet_def)
    then show ?thesis by (simp add: quiet_no_UrlOpen)
  next
    case (Inr token)
    obtain r2 t2 where sec: "get_origin_verify_secret env t1 = (r2, t2)" by fastforce
    obtain p2 where p2: "t2 = t1 @ p2" "quiet p2"
      using get_origin_verify_secret_run [of env t1] sec by auto
    have q2: "quiet t2" using p1 p2 q0 by (auto simp: quiet_def)
    show ?thesis
    proof (cases r2)
      case (Inl e2)
      then have "h @ UrlOpen req t # rest = t2 @ [LogException ''Aborting batch: could not fetch Origin Verify Secret'']"
        using run tok sec Inr by (simp add: handler_nonempty [OF ne(1)])
      then have "quiet (h @ UrlOpen req t # rest)"
        using q2 by (auto simp: quiet_def)
      then show ?thesis by (simp add: quiet_no_UrlOpen)
    next
      case secret: (Inr origin_secret)
      have h1: "handler env \<lparr>Records = Some (pre @ [r])\<rparr> = process_records env token origin_secret (pre @ [r]) t2"
        using tok sec Inr secret by (simp add: handler_nonempty [OF ne(1)])
      have h2: "handler env \<lparr>Records = Some (pre @ r # post)\<rparr> = process_records env token origin_secret (pre @ r # post) t2"
        using tok sec Inr secret by (simp add: handler_nonempty [OF ne(2)])
      obtain l where l: "snd (process_records env token origin_secret (pre @ [r]) t2) = t2 @ l"
        and once: "\<And>h req t rest e. l = h @ UrlOpen req t # rest \<Longrightarrow> urlopen env (t2 @ h) req = Inl e \<Longrightarrow>
            quiet rest \<and> fst (process_records env token origin_secret (pre @ [r]) t2) = Inl e"
        using process_records_run [of env token origin_secret "pre @ [r]" t2] by blast
      have "t2 @ l = h @ UrlOpen req t # rest" using run h1 l by simp
      from split_at_event [OF this] obtain h2 where "h = t2 @ h2" "l = h2 @ UrlOpen req t # rest"
        using q2 by (auto simp: quiet_no_UrlOpen)
      with once [of h2 req t rest e] fail
      have *: "quiet rest" "fst (process_records env token origin_secret (pre @ [r]) t2) = Inl e"
        by simp_all
      then have res: "res = Inl e" using run h1 by simp
      have "process_records env token origin_secret (pre @ [r]) t2 = (Inl e, h @ UrlOpen req t # rest)"
        using run h1 res by simp
      from process_records_raise_append [OF this, of post]
      have "handler env \<lparr>Records = Some (pre @ r # post)\<rparr> = (Inl e, h @ UrlOpen req t # rest)"
        using h2 by simp
      then show ?thesis using res *(1) by (simp add: quiet_def)
    qed
  qed
qed

theorem patch_failure_halts_batch_witness:
  "handler unreachable_env \<lparr>Records = Some ([] @ [\<lparr>body = Some ecs_created_body\<rparr>])\<rparr> =
     (Inl (URLError ''timed out''),
      [received_log,
       LogInfo ''Fetching ingestion API token from Secrets Manager'',
       GetSecretValue (Some ''arn:token''),
       LogInfo ''Successfully fetched ingestion API token'',
       LogInfo ''Fetching Origin Verify Secret token from Secrets Manager'',
       GetSecretValue (Some ''arn:origin''),
       LogInfo ''Successfully fetched Origin Verify Secret'',
       LogInfo ''Handling ECS Task failure event'',
       patch_log] @
      UrlOpen (patch_request unreachable_env ''bar'' ''failed'' ''t0k'' ''s3c'') 30 #
      [LogError ''URLError while patching document status''])
   \<and> http_exchange unreachable_env
       [received_log,
       LogInfo ''Fetching ingestion API token from Secrets Manager'',
       GetSecretValue (Some ''arn:token''),
       LogInfo ''Successfully fetched ingestion API token'',
       LogInfo ''Fetching Origin Verify Secret token from Secrets Manager'',
       GetSecretValue (Some ''arn:origin''),
       LogInfo ''Successfully fetched Origin Verify Secret'',
       LogInfo ''Handling ECS Task failure event'',
       patch_log]
       (patch_request unreachable_env ''bar'' ''failed'' ''t0k'' ''s3c'') = Inl (URLError ''timed out'')
   \<and> handler unreachable_env
       \<lparr>Records = Some ([] @ \<lparr>body = Some ecs_created_body\<rparr> # [\<lparr>body = Some run_deleted_body\<rparr>])\<rparr> =
     (Inl (URLError ''timed out''),
      [received_log,
       LogInfo ''Fetching ingestion API token from Secrets Manager'',
       GetSecretValue (Some ''arn:token''),
       LogInfo ''Successfully fetched ingestion API token'',
       LogInfo ''Fetching Origin Verify Secret token from Secrets Manager'',
       GetSecretValue (Some ''arn:origin''),
       LogInfo ''Successfully fetched Origin Verify Secret'',
       LogInfo ''Handling ECS Task failure event'',
       patch_log] @
      UrlOpen (patch_request unreachable_env ''bar'' ''failed'' ''t0k'' ''s3c'') 30 #
      [LogError ''URLError while patching document status''])
   \<and> http_exchange overloaded_env
       [received_log,
       LogInfo ''Fetching ingestion API token from Secrets Manager'',
       GetSecretValue (Some ''arn:token''),
       LogInfo ''Successfully fetched ingestion API token'',
       LogInfo ''Fetching Origin Verify Secret token from Secrets Manager'',
       GetSecretValue (Some ''arn:origin''),
       LogInfo ''Successfully fetched Origin Verify Secret'',
       LogInfo ''Handling ECS Task failure event'',
       patch_log]
       (patch_request overloaded_env ''bar'' ''failed'' ''t0k'' ''s3c'') =
         Inr \<lparr> resp_code = 503, resp_body = ''busy'' \<rparr>
   \<and> handler overloaded_env
       \<lparr>Records = Some ([] @ \<lparr>body = Some ecs_created_body\<rparr> # [\<lparr>body = Some run_deleted_body\<rparr>])\<rparr> =
     (Inl (HTTPError 503 ''busy''),
      [received_log,
       LogInfo ''Fetching ingestion API token from Secrets Manager'',
       GetSecretValue (Some ''arn:token''),
       LogInfo ''Successfully fetched ingestion API token'',
       LogInfo ''Fetching Origin Verify Secret token from Secrets Manager'',
       GetSecretValue (Some ''arn:origin''),
       LogInfo ''Successfully fetched Origin Verify Secret'',
       LogInfo ''Handling ECS Task failure event'',
       patch_log] @
      UrlOpen (patch_request overloaded_env ''bar'' ''failed'' ''t0k'' ''s3c'') 30 #
      [LogError ''HTTPError while patching document status''])"
proof -
  let ?h = "[received_log,
       LogInfo ''Fetching ingestion API token from Secrets Manager'',
       GetSecretValue (Some ''arn:token''),
       LogInfo ''Successfully fetched ingestion API token'',
       LogInfo ''Fetching Origin Verify Secret token from Secrets Manager'',
       GetSecretValue (Some ''arn:origin''),
       LogInfo ''Successfully fetched Origin Verify Secret'',
       LogInfo ''Handling ECS Task failure event'',
       patch_log]"
  let ?r = "\<lparr>body = Some ecs_created_body\<rparr>"
  let ?post = "[\<lparr>body = Some run_deleted_body\<rparr>]"
  let ?req = "patch_request unreachable_env ''bar'' ''failed'' ''t0k'' ''s3c''"
  have run: "handler unreachable_env \<lparr>Records = Some ([] @ [?r])\<rparr> =
     (Inl (URLError ''timed out''),
      ?h @ UrlOpen ?req 30 # [LogError ''URLError while patching document status''])"
    by (simp add: model_defs sample_defs received_log_def patch_log_def)
  have fail: "http_exchange unreachable_env ?h ?req = Inl (URLError ''timed out'')"
    by (simp add: sample_defs)
  let ?req' = "patch_request overloaded_env ''bar'' ''failed'' ''t0k'' ''s3c''"
  have run': "handler overloaded_env \<lparr>Records = Some ([] @ [?r])\<rparr> =
     (Inl (HTTPError 503 ''busy''),
      ?h @ UrlOpen ?req' 30 # [LogError ''HTTPError while patching document status''])"
    by (simp add: model_defs sample_defs received_log_def patch_log_def)
  have resp: "http_exchange overloaded_env ?h ?req' = Inr \<lparr> resp_code = 503, resp_body = ''busy'' \<rparr>"
    by (simp add: sample_defs)
  have fail': "\<exists>resp. http_exchange overloaded_env ?h ?req' = Inr resp \<and>
             \<not> (200 \<le> resp_code resp \<and> resp_code resp < 300) \<and>
             HTTPError 503 ''busy'' = HTTPError (resp_code resp) (resp_body resp)"
    using resp by simp
  from patch_failure_halts_batch [OF run disjI1 [OF fail], of ?post]
    patch_failure_halts_batch [OF run' disjI2 [OF fail'], of ?post] run fail resp
  show ?thesis by blast
qed

lemma patches_of_append: "patches_of (xs @ ys) = patches_of xs @ patches_of ys"
  by (induction xs rule: patches_of.induct) simp_all

lemma patches_of_quiet: "quiet l \<Longrightarrow> patches_of l = []"
  by (induction l rule: patches_of.induct) (simp_all add: quiet_def)


subsection \<open>An empty batch\<close>

text \<open>
  Claim C10. An event without a \<^verbatim>\<open>Records\<close> key, or with an empty list of records, makes
  the handler return normally after two log lines: it looks up no secret and issues no
  HTTP request.
\<close>

theorem empty_batch_returns_without_effects:
  "handler env \<lparr>Records = None\<rparr> =
     (Inr (), [received_log, LogInfo ''No records in event; nothing to process''])
   \<and> handler env \<lparr>Records = Some []\<rparr> =
     (Inr (), [received_log, LogInfo ''No records in event; nothing to process''])
   \<and> filter is_GetSecretValue (snd (handler env \<lparr>Records = None\<rparr>)) = []
   \<and> filter is_GetSecretValue (snd (handler env \<lparr>Records = Some []\<rparr>)) = []
   \<and> patches_of (snd (handler env \<lparr>Records = None\<rparr>)) = []
   \<and> patches_of (snd (handler env \<lparr>Records = Some []\<rparr>)) = []"
  by (simp add: handler_def received_log_def)

theorem empty_batch_returns_without_effects_witness:
  "handler no_origin_env \<lparr>Records = None\<rparr> =
     (Inr (), [received_log, LogInfo ''No records in event; nothing to process''])
   \<and> handler no_origin_env \<lparr>Records = Some []\<rparr> =
     (Inr (), [received_log, LogInfo ''No records in event; nothing to process''])"
  using empty_batch_returns_without_effects [of no_origin_env] by blast

subsection \<open>An unparseable body\<close>




subsection \<open>The secrets\<close>




subsection \<open>From the payload to the report\<close>

lemma record_patches_verdict:
  "record_patches env tok sec r tr =
     (case record_verdict env r of
        Patch m d s \<Rightarrow>
          (case Request env (req_url (patch_request env d s tok sec)) of
             None \<Rightarrow> [patch_request env d s tok sec]
           | Some e \<Rightarrow> [])
      | _ \<Rightarrow> [])"
proof (cases "record_verdict env r")
  case (Patch m d s)
  show ?thesis
  proof (cases "Request env (req_url (patch_request env d s tok sec))")
    case None
    obtain l where "snd (patch_status env d s tok sec (tr @ [LogInfo m])) =
        (tr @ [LogInfo m]) @ patch_log # UrlOpen (patch_request env d s tok sec) 30 # l" "quiet l"
      using patch_status_run [OF None] by blast
    then show ?thesis using Patch None
      by (simp add: record_patches_def process_record_verdict patch_log_def patches_of_quiet)
  next
    case (Some e)
    then show ?thesis using Patch
      by (simp add: record_patches_def process_record_verdict patch_status_refused patch_log_def)
  qed
qed (simp_all add: record_patches_def process_record_verdict)

lemma status_recognized:
  "status_from_event_type et \<noteq> None \<longleftrightarrow>
     et = JString ''Object Created'' \<or> et = JString ''Object Deleted''"
  by (simp add: status_from_event_type_def)

lemma status_truthy: "status_from_event_type et = Some s \<Longrightarrow> truthy et"
  by (auto simp: status_from_event_type_def split: if_splits)

lemma document_id_of_Inr: "document_id_of k = Inr d \<longleftrightarrow> (\<exists>key. k = JString key \<and> d = path_stem key)"
  by (cases k) auto



lemma decide_Report:
  "decide ov = Report d s \<longleftrightarrow>
     (\<exists>overrides key et. ov = Inr overrides \<and>
        get_key_and_event_type overrides = Inr (JString key, et) \<and> key \<noteq> [] \<and>
        status_from_event_type et = Some s \<and> d = path_stem key)"
proof (cases ov)
  case (Inl e)
  then show ?thesis by (simp add: decide_def)
next
  case ov: (Inr overrides)
  show ?thesis
  proof (cases "get_key_and_event_type overrides")
    case (Inl e)
    then show ?thesis using ov by (simp add: decide_def)
  next
    case (Inr p)
    obtain k et where p: "p = (k, et)" by (cases p)
    show ?thesis
    proof (cases "truthy k \<and> truthy et")
      case False
      then have "decide ov = Missing" using ov Inr p by (simp add: decide_def)
      moreover have "\<not> (\<exists>key. k = JString key \<and> key \<noteq> [] \<and> status_from_event_type et = Some s)"
        using False status_truthy [of et s] by auto
      ultimately show ?thesis using ov Inr p by auto
    next
      case True
      show ?thesis
      proof (cases "status_from_event_type et")
        case None
        then show ?thesis using ov Inr p True by (simp add: decide_def)
      next
        case (Some s')
        show ?thesis
        proof (cases k)
          case (JString key)
          then show ?thesis using ov Inr p True Some by (auto simp: decide_def)
        qed (use ov Inr p True Some in \<open>simp_all add: decide_def\<close>)
      qed
    qed
  qed
qed

lemma decide_skip:
  "get_key_and_event_type ov = Inr (key, et) \<Longrightarrow> status_from_event_type et = None \<Longrightarrow>
     decide (Inr ov) = Missing \<or> decide (Inr ov) = Unknown"
  by (simp add: decide_def)

lemma decide_Missing:
  "get_key_and_event_type ov = Inr (key, et) \<Longrightarrow> \<not> truthy key \<or> \<not> truthy et \<Longrightarrow>
     decide (Inr ov) = Missing"
  by (simp add: decide_def)

lemma record_verdict_overrides:
  assumes "json_loads env (body_text r) = Inr payload" "message_overrides payload = Some ov"
  shows "\<exists>m1 m2 m3. record_verdict env r =
     (case decide (Inr ov) of
        Raises e \<Rightarrow> Raise e
      | Missing \<Rightarrow> Skip m1
      | Unknown \<Rightarrow> Skip m2
      | Report d s \<Rightarrow> Patch m3 d s)"
proof (cases payload)
  case (JObject kvs)
  show ?thesis
  proof (cases "map_of kvs ''detail-type'' = Some (JString ''ECS Task State Change'')")
    case True
    then have "detail_overrides (JObject kvs) = Inr ov"
      using assms(2) JObject by (simp add: message_overrides_def split: sum.splits)
    then show ?thesis using assms(1) JObject True
      by (simp add: record_verdict_def) blast
  next
    case False
    then have "map_of kvs ''containerOverrides'' = Some ov"
      using assms(2) JObject by (simp add: message_overrides_def)
    then show ?thesis using assms(1) JObject False
      by (simp add: record_verdict_def) blast
  qed
qed (use assms in \<open>simp_all add: message_overrides_def\<close>)

lemma record_verdict_Patch:
  "(\<exists>m. record_verdict env r = Patch m d s) \<longleftrightarrow>
     (\<exists>payload ov. json_loads env (body_text r) = Inr payload \<and>
        message_overrides payload = Some ov \<and> decide (Inr ov) = Report d s)"
proof
  assume "\<exists>m. record_verdict env r = Patch m d s"
  then obtain m where m: "record_verdict env r = Patch m d s" ..
  then obtain kvs where kvs: "json_loads env (body_text r) = Inr (JObject kvs)"
    by (auto simp: record_verdict_def split: sum.splits json.splits if_splits)
  show "\<exists>payload ov. json_loads env (body_text r) = Inr payload \<and>
        message_overrides payload = Some ov \<and> decide (Inr ov) = Report d s"
  proof (cases "map_of kvs ''detail-type'' = Some (JString ''ECS Task State Change'')")
    case True
    with m kvs have "decide (detail_overrides (JObject kvs)) = Report d s"
      by (simp add: record_verdict_def split: decision.splits)
    moreover from this obtain ov where "detail_overrides (JObject kvs) = Inr ov"
      by (auto simp: decide_Report)
    ultimately show ?thesis using kvs True by (auto simp: message_overrides_def)
  next
    case False
    with m kvs obtain ov where ov: "map_of kvs ''containerOverrides'' = Some ov"
      by (auto simp: record_verdict_def split: if_splits)
    with m kvs False have "decide (Inr ov) = Report d s"
      by (simp add: record_verdict_def split: decision.splits)
    then show ?thesis using kvs False ov by (auto simp: message_overrides_def)
  qed
next
  assume "\<exists>payload ov. json_loads env (body_text r) = Inr payload \<and>
        message_overrides payload = Some ov \<and> decide (Inr ov) = Report d s"
  then obtain payload ov where *: "json_loads env (body_text r) = Inr payload"
      "message_overrides payload = Some ov" "decide (Inr ov) = Report d s"
    by blast
  from record_verdict_overrides [OF *(1,2)] *(3)
  show "\<exists>m. record_verdict env r = Patch m d s" by auto
qed

lemma map_get_upd: "map_get (m(n \<mapsto> v)) k = (if n = JString k then v else map_get m k)"
  by (simp add: map_get_def)

lemma env_map_of_lookup:
  "list_all env_item items \<Longrightarrow>
     \<exists>m'. env_map_of items m = Inr m' \<and> (\<forall>k. map_get m' k = env_lookup k (map_get m k) items)"
proof (induction items arbitrary: m)
  case Nil
  show ?case by simp
next
  case (Cons item items)
  then obtain kvs where item: "item = JObject kvs"
      "hashable (case map_of kvs ''name'' of Some n \<Rightarrow> n | None \<Rightarrow> JNull)"
    by (cases item) auto
  let ?n = "case map_of kvs ''name'' of Some n \<Rightarrow> n | None \<Rightarrow> JNull"
  let ?v = "case map_of kvs ''value'' of Some v \<Rightarrow> v | None \<Rightarrow> JNull"
  from Cons.prems have "list_all env_item items" by simp
  from Cons.IH [OF this, of "m(?n \<mapsto> ?v)"]
  obtain m' where m': "env_map_of items (m(?n \<mapsto> ?v)) = Inr m'"
      "\<And>k. map_get m' k = env_lookup k (map_get (m(?n \<mapsto> ?v)) k) items"
    by blast
  have "env_map_of (item # items) m = Inr m'"
    using item m'(1) by simp
  moreover have "map_get m' k = env_lookup k (map_get m k) (item # items)" for k
    using item m'(2) [of k] by (simp add: map_get_upd)
  ultimately show ?case by blast
qed

lemma get_key_and_event_type_first:
  "get_key_and_event_type (JArray (first # others)) = get_key_and_event_type (JArray [first])"
  by (simp add: get_key_and_event_type_def)

lemma get_key_and_event_type_items:
  assumes "py_get (JObject first) ''environment'' (JArray []) = Inr (JArray items)"
    and "list_all env_item items"
  shows "get_key_and_event_type (JArray (JObject first # others)) =
           Inr (env_value ''S3_OBJECT_KEY'' items, env_value ''EVENT_TYPE'' items)"
proof -
  from env_map_of_lookup [OF assms(2), of Map.empty]
  obtain m' where "env_map_of items Map.empty = Inr m'"
      "\<And>k. map_get m' k = env_lookup k (map_get Map.empty k) items"
    by blast
  then show ?thesis using assms(1)
    by (simp add: get_key_and_event_type_def env_value_def) (simp add: map_get_def)
qed


lemma record_patches_cases:
  "record_patches env tok sec r tr = []
   \<or> (\<exists>m d s. record_verdict env r = Patch m d s \<and>
         Request env (req_url (patch_request env d s tok sec)) = None \<and>
         record_patches env tok sec r tr = [patch_request env d s tok sec])"
  by (cases "record_verdict env r")
    (simp_all add: record_patches_verdict split: option.splits)

lemma req_url_patch_request:
  "req_url (patch_request env d s tok sec) = ALB_BASE_URL env @ DOCS_API_PATH env @ ''/'' @ d"
  by (simp add: patch_request_def)

lemma record_patches_Report:
  assumes "json_loads env (body_text r) = Inr payload" "message_overrides payload = Some ov"
    and "get_key_and_event_type ov = Inr (JString key, et)" "key \<noteq> []"
    and "status_from_event_type et = Some s"
    and "Request env (ALB_BASE_URL env @ DOCS_API_PATH env @ ''/'' @ path_stem key) = None"
  shows "record_patches env tok sec r tr = [patch_request env (path_stem key) s tok sec]"
proof -
  have "decide (Inr ov) = Report (path_stem key) s"
    using assms(3-5) by (simp add: decide_Report)
  then have "\<exists>m. record_verdict env r = Patch m (path_stem key) s"
    using assms(1,2) record_verdict_Patch by blast
  then show ?thesis using assms(6)
    by (auto simp: record_patches_verdict req_url_patch_request)
qed

lemma record_patches_refused:
  assumes "json_loads env (body_text r) = Inr payload" "message_overrides payload = Some ov"
    and "get_key_and_event_type ov = Inr (JString key, et)"
    and "Request env (ALB_BASE_URL env @ DOCS_API_PATH env @ ''/'' @ path_stem key) \<noteq> None"
  shows "record_patches env tok sec r tr = []"
proof (rule ccontr)
  assume "record_patches env tok sec r tr \<noteq> []"
  then obtain m d s where v: "record_verdict env r = Patch m d s"
      and ok: "Request env (req_url (patch_request env d s tok sec)) = None"
    using record_patches_cases [of env tok sec r tr] by auto
  from v obtain payload' ov' where *: "json_loads env (body_text r) = Inr payload'"
      "message_overrides payload' = Some ov'" "decide (Inr ov') = Report d s"
    using record_verdict_Patch [of env r d s] by blast
  then have "ov' = ov" using assms(1,2) by simp
  then have "d = path_stem key" using *(3) assms(3) by (auto simp: decide_Report)
  then show False using ok assms(4) by (simp add: req_url_patch_request)
qed

lemma process_record_skip:
  assumes "json_loads env (body_text r) = Inr payload" "message_overrides payload = Some ov"
    and "decide (Inr ov) = Missing \<or> decide (Inr ov) = Unknown"
  shows "(\<exists>m. process_record env tok sec r tr = (Inr (), tr @ [LogError m])) \<and>
         record_patches env tok sec r tr = []"
proof -
  from record_verdict_overrides [OF assms(1,2)] assms(3)
  obtain m where "record_verdict env r = Skip m" by auto
  then show ?thesis by (simp add: process_record_verdict record_patches_verdict)
qed

subsection \<open>When a message yields a report\<close>

text \<open>
  Claim C1, with the extraction the handler performs. A record adds a PATCH if and only
  if its body parses, the payload hands over an overrides value,
  \<open>get_key_and_event_type\<close> returns from it a key that is a non-empty string together
  with the event type \<^verbatim>\<open>Object Created\<close> or \<^verbatim>\<open>Object Deleted\<close>, and \<^verbatim>\<open>Request\<close> accepts the
  URL built for the key. In particular, when the overrides are a list whose first element
  is an object whose environment entry is a list of objects with hashable names, the
  record yields a report exactly when that first list gives a non-empty string for
  \<^verbatim>\<open>S3_OBJECT_KEY\<close>, with a URL that \<^verbatim>\<open>Request\<close> accepts, and one of the two event types for
  \<^verbatim>\<open>EVENT_TYPE\<close>.
\<close>

theorem report_iff_key_and_event_type:
  "(record_patches env tok sec r tr \<noteq> [] \<longleftrightarrow>
      (\<exists>payload ov key et.
         json_loads env (body_text r) = Inr payload \<and> message_overrides payload = Some ov \<and>
         get_key_and_event_type ov = Inr (JString key, et) \<and> key \<noteq> [] \<and>
         (et = JString ''Object Created'' \<or> et = JString ''Object Deleted'') \<and>
         Request env (ALB_BASE_URL env @ DOCS_API_PATH env @ ''/'' @ path_stem key) = None))
   \<and> (json_loads env (body_text r) = Inr payload \<and>
      message_overrides payload = Some (JArray (JObject first # others)) \<and>
      py_get (JObject first) ''environment'' (JArray []) = Inr (JArray items) \<and>
      list_all env_item items \<longrightarrow>
        (record_patches env tok sec r tr \<noteq> [] \<longleftrightarrow>
           (\<exists>key. env_value ''S3_OBJECT_KEY'' items = JString key \<and> key \<noteq> [] \<and>
              Request env (ALB_BASE_URL env @ DOCS_API_PATH env @ ''/'' @ path_stem key) = None) \<and>
           (env_value ''EVENT_TYPE'' items = JString ''Object Created'' \<or>
            env_value ''EVENT_TYPE'' items = JString ''Object Deleted'')))"
proof -
  have general: "record_patches env tok sec r tr \<noteq> [] \<longleftrightarrow>
      (\<exists>payload ov key et.
         json_loads env (body_text r) = Inr payload \<and> message_overrides payload = Some ov \<and>
         get_key_and_event_type ov = Inr (JString key, et) \<and> key \<noteq> [] \<and>
         (et = JString ''Object Created'' \<or> et = JString ''Object Deleted'') \<and>
         Request env (ALB_BASE_URL env @ DOCS_API_PATH env @ ''/'' @ path_stem key) = None)"
    (is "?L \<longleftrightarrow> ?R")
  proof
    assume ?L
    then obtain m d s where v: "record_verdict env r = Patch m d s"
        and ok: "Request env (req_url (patch_request env d s tok sec)) = None"
      using record_patches_cases [of env tok sec r tr] by auto
    from v obtain payload ov where *: "json_loads env (body_text r) = Inr payload"
        "message_overrides payload = Some ov" "decide (Inr ov) = Report d s"
      using record_verdict_Patch [of env r d s] by blast
    from *(3) obtain key et where **: "get_key_and_event_type ov = Inr (JString key, et)"
        "key \<noteq> []" "status_from_event_type et = Some s" "d = path_stem key"
      by (auto simp: decide_Report)
    have "et = JString ''Object Created'' \<or> et = JString ''Object Deleted''"
      using **(3) status_recognized [of et] by simp
    moreover have "Request env (ALB_BASE_URL env @ DOCS_API_PATH env @ ''/'' @ path_stem key) = None"
      using ok **(4) by (simp add: req_url_patch_request)
    ultimately show ?R using *(1,2) **(1,2) by blast
  next
    assume ?R
    then obtain payload ov key et where *: "json_loads env (body_text r) = Inr payload"
        "message_overrides payload = Some ov" "get_key_and_event_type ov = Inr (JString key, et)"
        "key \<noteq> []" "et = JString ''Object Created'' \<or> et = JString ''Object Deleted''"
        "Request env (ALB_BASE_URL env @ DOCS_API_PATH env @ ''/'' @ path_stem key) = None"
      by blast
    from *(5) obtain s where "status_from_event_type et = Some s"
      using status_recognized [of et] by auto
    from record_patches_Report [OF *(1-4) this *(6)] show ?L by simp
  qed
  have first: "record_patches env tok sec r tr \<noteq> [] \<longleftrightarrow>
           (\<exists>key. env_value ''S3_OBJECT_KEY'' items = JString key \<and> key \<noteq> [] \<and>
              Request env (ALB_BASE_URL env @ DOCS_API_PATH env @ ''/'' @ path_stem key) = None) \<and>
           (env_value ''EVENT_TYPE'' items = JString ''Object Created'' \<or>
            env_value ''EVENT_TYPE'' items = JString ''Object Deleted'')"
    if "json_loads env (body_text r) = Inr payload"
      "message_overrides payload = Some (JArray (JObject first # others))"
      "py_get (JObject first) ''environment'' (JArray []) = Inr (JArray items)"
      "list_all env_item items"
  proof -
    have "get_key_and_event_type (JArray (JObject first # others)) =
        Inr (env_value ''S3_OBJECT_KEY'' items, env_value ''EVENT_TYPE'' items)"
      using get_key_and_event_type_items [OF that(3,4)] .
    then show ?thesis using general that(1,2) by auto
  qed
  show ?thesis using general first by blast
qed

theorem report_iff_key_and_event_type_witness:
  "json_loads example_env (body_text \<lparr>body = Some run_deleted_body\<rparr>) = Inr run_deleted_payload
   \<and> message_overrides run_deleted_payload =
       Some (JArray (JObject [(''environment'',
         JArray [env_pair ''S3_OBJECT_KEY'' ''documents/abc123.pdf'',
                 env_pair ''EVENT_TYPE'' ''Object Deleted''])] # []))
   \<and> list_all env_item [env_pair ''S3_OBJECT_KEY'' ''documents/abc123.pdf'',
                         env_pair ''EVENT_TYPE'' ''Object Deleted'']
   \<and> env_value ''S3_OBJECT_KEY'' [env_pair ''S3_OBJECT_KEY'' ''documents/abc123.pdf'',
                                   env_pair ''EVENT_TYPE'' ''Object Deleted''] = JString ''documents/abc123.pdf''
   \<and> env_value ''EVENT_TYPE'' [env_pair ''S3_OBJECT_KEY'' ''documents/abc123.pdf'',
                                env_pair ''EVENT_TYPE'' ''Object Deleted''] = JString ''Object Deleted''
   \<and> Request example_env
       (ALB_BASE_URL example_env @ DOCS_API_PATH example_env @ ''/'' @
        path_stem ''documents/abc123.pdf'') = None
   \<and> record_patches example_env ''t0k'' ''s3c'' \<lparr>body = Some run_deleted_body\<rparr> [] \<noteq> []"
proof -
  let ?items = "[env_pair ''S3_OBJECT_KEY'' ''documents/abc123.pdf'',
                 env_pair ''EVENT_TYPE'' ''Object Deleted'']"
  let ?first = "[(''environment'', JArray ?items)]"
  have loads: "json_loads example_env (body_text \<lparr>body = Some run_deleted_body\<rparr>) = Inr run_deleted_payload"
    by (simp add: sample_defs body_text_def)
  have ov: "message_overrides run_deleted_payload = Some (JArray (JObject ?first # []))"
    by (simp add: message_overrides_def run_deleted_payload_def)
  have env: "py_get (JObject ?first) ''environment'' (JArray []) = Inr (JArray ?items)"
    by simp
  have items: "list_all env_item ?items"
    by (simp add: env_pair_def)
  have key: "env_value ''S3_OBJECT_KEY'' ?items = JString ''documents/abc123.pdf''"
    by (simp add: env_value_def env_pair_def)
  have et: "env_value ''EVENT_TYPE'' ?items = JString ''Object Deleted''"
    by (simp add: env_value_def env_pair_def)
  have url: "Request example_env
       (ALB_BASE_URL example_env @ DOCS_API_PATH example_env @ ''/'' @
        path_stem ''documents/abc123.pdf'') = None"
    by (simp add: sample_defs path_stem_def path_name_def rfind_def)
  have nonempty: "''documents/abc123.pdf'' \<noteq> []" by simp
  from report_iff_key_and_event_type [where env = example_env and tok = "''t0k''" and sec = "''s3c''"
      and r = "\<lparr>body = Some run_deleted_body\<rparr>" and tr = "[]" and payload = run_deleted_payload
      and first = ?first and others = "[]" and items = ?items]
    loads ov env items key et url nonempty
  have "record_patches example_env ''t0k'' ''s3c'' \<lparr>body = Some run_deleted_body\<rparr> [] \<noteq> []"
    by blast
  then show ?thesis using loads ov items key et url by blast
qed

text \<open>
  Claim C1 as stated promises a report whenever some override carries both values. The
  first payload below carries them in its second override; the first override has an
  empty environment list, and the handler logs the missing fields and issues no PATCH.
  The second carries them in its first override, after an item that is a string: the
  extraction raises \<^verbatim>\<open>AttributeError\<close>. The third is the event of the specification with
  a base URL that has no scheme: \<^verbatim>\<open>Request\<close> raises \<^verbatim>\<open>ValueError\<close>. None yields a
  PATCH.
\<close>

theorem later_override_yields_no_report_counterexample:
  "json_loads example_env (body_text \<lparr>body = Some second_override_body\<rparr>) =
     Inr (JObject [(''containerOverrides'',
       JArray [JObject [(''environment'', JArray [])],
               JObject [(''environment'',
                 JArray [env_pair ''S3_OBJECT_KEY'' ''foo/bar.txt'',
                         env_pair ''EVENT_TYPE'' ''Object Created''])]])])
   \<and> process_record example_env ''t0k'' ''s3c'' \<lparr>body = Some second_override_body\<rparr> [] =
       (Inr (), [LogError ''Missing S3_OBJECT_KEY or EVENT_TYPE in RunTask payload; skipping''])
   \<and> record_patches example_env ''t0k'' ''s3c'' \<lparr>body = Some second_override_body\<rparr> [] = []
   \<and> json_loads example_env (body_text \<lparr>body = Some junk_item_body\<rparr>) =
     Inr (JObject [(''containerOverrides'',
       JArray [JObject [(''environment'',
         JArray [JString ''junk'',
                 env_pair ''S3_OBJECT_KEY'' ''foo/bar.txt'',
                 env_pair ''EVENT_TYPE'' ''Object Created''])]])])
   \<and> process_record example_env ''t0k'' ''s3c'' \<lparr>body = Some junk_item_body\<rparr> [] =
       (Inl AttributeError, [])
   \<and> record_patches example_env ''t0k'' ''s3c'' \<lparr>body = Some junk_item_body\<rparr> [] = []
   \<and> json_loads schemeless_env (body_text \<lparr>body = Some ecs_created_body\<rparr>) = Inr ecs_created_payload
   \<and> process_record schemeless_env ''t0k'' ''s3c'' \<lparr>body = Some ecs_created_body\<rparr> [] =
       (Inl ValueError, [LogInfo ''Handling ECS Task failure event'', patch_log])
   \<and> record_patches schemeless_env ''t0k'' ''s3c'' \<lparr>body = Some ecs_created_body\<rparr> [] = []"
  by (simp add: record_patches_def model_defs sample_defs patch_log_def)

subsection \<open>Only the first override counts\<close>

text \<open>
  Claim C9, for a first override that can be read. The result of
  \<open>get_key_and_event_type\<close> on a list of overrides is its result on the first element
  alone, whatever the elements are. So whenever the extraction from the first override
  returns, with \<^verbatim>\<open>None\<close>, the empty string or another false value for either field, the
  record is skipped with one error log line and no PATCH, whatever the later overrides
  hold. That is the case when the first override is an object whose environment entry is
  absent or is a list of objects with hashable names, and \<^verbatim>\<open>S3_OBJECT_KEY\<close> or
  \<^verbatim>\<open>EVENT_TYPE\<close> is absent from that list or is the empty string there.
\<close>

theorem only_first_override_is_consulted:
  "get_key_and_event_type (JArray (ov1 # others)) = get_key_and_event_type (JArray [ov1])
   \<and> (json_loads env (body_text r) = Inr payload \<and>
      message_overrides payload = Some (JArray (ov1 # others)) \<and>
      get_key_and_event_type (JArray [ov1]) = Inr (k, e) \<and>
      (\<not> truthy k \<or> \<not> truthy e) \<longrightarrow>
        (\<exists>m. process_record env tok sec r tr = (Inr (), tr @ [LogError m])) \<and>
        record_patches env tok sec r tr = [])
   \<and> (json_loads env (body_text r) = Inr payload \<and>
      message_overrides payload = Some (JArray (JObject first # others)) \<and>
      py_get (JObject first) ''environment'' (JArray []) = Inr (JArray items) \<and>
      list_all env_item items \<and>
      (env_value ''S3_OBJECT_KEY'' items = JNull \<or> env_value ''S3_OBJECT_KEY'' items = JString [] \<or>
       env_value ''EVENT_TYPE'' items = JNull \<or> env_value ''EVENT_TYPE'' items = JString []) \<longrightarrow>
        (\<exists>m. process_record env tok sec r tr = (Inr (), tr @ [LogError m])) \<and>
        record_patches env tok sec r tr = [])"
proof -
  have returned: "(\<exists>m. process_record env tok sec r tr = (Inr (), tr @ [LogError m])) \<and>
        record_patches env tok sec r tr = []"
    if "json_loads env (body_text r) = Inr payload"
      "message_overrides payload = Some (JArray (ov1 # others))"
      "get_key_and_event_type (JArray [ov1]) = Inr (k, e)"
      "\<not> truthy k \<or> \<not> truthy e"
  proof -
    have "get_key_and_event_type (JArray (ov1 # others)) = Inr (k, e)"
      using that(3) by (simp add: get_key_and_event_type_first [of ov1 others])
    then have "decide (Inr (JArray (ov1 # others))) = Missing"
      using that(4) by (rule decide_Missing)
    then show ?thesis using process_record_skip [OF that(1,2)] by simp
  qed
  have "(\<exists>m. process_record env tok sec r tr = (Inr (), tr @ [LogError m])) \<and>
        record_patches env tok sec r tr = []"
    if "json_loads env (body_text r) = Inr payload"
      "message_overrides payload = Some (JArray (JObject first # others))"
      "py_get (JObject first) ''environment'' (JArray []) = Inr (JArray items)"
      "list_all env_item items"
      "env_value ''S3_OBJECT_KEY'' items = JNull \<or> env_value ''S3_OBJECT_KEY'' items = JString [] \<or>
       env_value ''EVENT_TYPE'' items = JNull \<or> env_value ''EVENT_TYPE'' items = JString []"
  proof -
    let ?k = "env_value ''S3_OBJECT_KEY'' items" and ?e = "env_value ''EVENT_TYPE'' items"
    have "get_key_and_event_type (JArray (JObject first # others)) = Inr (?k, ?e)"
      using get_key_and_event_type_items [OF that(3,4)] .
    moreover have "\<not> truthy ?k \<or> \<not> truthy ?e" using that(5) by auto
    ultimately have "decide (Inr (JArray (JObject first # others))) = Missing"
      by (rule decide_Missing)
    then show ?thesis using process_record_skip [OF that(1,2)] by simp
  qed
  then show ?thesis using returned
    by (simp add: get_key_and_event_type_first [of ov1 others])
qed

theorem only_first_override_is_consulted_witness:
  "json_loads example_env (body_text \<lparr>body = Some second_override_body\<rparr>) = Inr second_override_payload
   \<and> message_overrides second_override_payload =
       Some (JArray (JObject [(''environment'', JArray [])] #
               [JObject [(''environment'',
                  JArray [env_pair ''S3_OBJECT_KEY'' ''foo/bar.txt'',
                          env_pair ''EVENT_TYPE'' ''Object Created''])]]))
   \<and> py_get (JObject [(''environment'', JArray [])]) ''environment'' (JArray []) = Inr (JArray [])
   \<and> list_all env_item []
   \<and> env_value ''S3_OBJECT_KEY'' [] = JNull
   \<and> (\<exists>m. process_record example_env ''t0k'' ''s3c'' \<lparr>body = Some second_override_body\<rparr> [] =
            (Inr (), [] @ [LogError m]))
   \<and> record_patches example_env ''t0k'' ''s3c'' \<lparr>body = Some second_override_body\<rparr> [] = []"
proof -
  let ?others = "[JObject [(''environment'',
                  JArray [env_pair ''S3_OBJECT_KEY'' ''foo/bar.txt'',
                          env_pair ''EVENT_TYPE'' ''Object Created''])]]"
  have loads: "json_loads example_env (body_text \<lparr>body = Some second_override_body\<rparr>) = Inr second_override_payload"
    by (simp add: sample_defs body_text_def)
  have ov: "message_overrides second_override_payload =
       Some (JArray (JObject [(''environment'', JArray [])] # ?others))"
    by (simp add: message_overrides_def second_override_payload_def)
  have env: "py_get (JObject [(''environment'', JArray [])]) ''environment'' (JArray []) = Inr (JArray [])"
    by simp
  have items: "list_all env_item []" by simp
  have key: "env_value ''S3_OBJECT_KEY'' [] = JNull" by (simp add: env_value_def)
  from only_first_override_is_consulted [where env = example_env
      and r = "\<lparr>body = Some second_override_body\<rparr>" and payload = second_override_payload
      and first = "[(''environment'', JArray [])]" and others = ?others and items = "[]"
      and tok = "''t0k''" and sec = "''s3c''" and tr = "[]"]
    loads ov env items key
  show ?thesis by blast
qed

text \<open>
  Claim C9 as stated covers every payload with two or more overrides. In the payload
  below the first override is \<^verbatim>\<open>null\<close> and the second carries both fields: the handler
  calls \<^verbatim>\<open>get\<close> on the first, which raises \<^verbatim>\<open>AttributeError\<close>. The message is not skipped:
  nothing is logged, the exception leaves the handler, and a record that follows in the
  batch is never processed.
\<close>

theorem null_first_override_raises_counterexample:
  "json_loads example_env (body_text \<lparr>body = Some null_first_body\<rparr>) =
     Inr (JObject [(''containerOverrides'',
       JArray [JNull,
               JObject [(''environment'',
                 JArray [env_pair ''S3_OBJECT_KEY'' ''foo/bar.txt'',
                         env_pair ''EVENT_TYPE'' ''Object Created''])]])])
   \<and> process_record example_env ''t0k'' ''s3c'' \<lparr>body = Some null_first_body\<rparr> [] =
       (Inl AttributeError, [])
   \<and> process_records example_env ''t0k'' ''s3c''
       [\<lparr>body = Some null_first_body\<rparr>, \<lparr>body = Some run_deleted_body\<rparr>] [] =
       (Inl AttributeError, [])"
  by (simp add: model_defs sample_defs)

subsection \<open>The status mapping\<close>

text \<open>
  Claim C4. The event type \<^verbatim>\<open>Object Created\<close> maps to the status \<^verbatim>\<open>failed\<close>,
  \<^verbatim>\<open>Object Deleted\<close> to \<^verbatim>\<open>delete_failed\<close>, and every other value to no status. A record
  whose extracted event type has no status is skipped: one error log line, no PATCH, no
  exception. A record with a non-empty string key and an event type that has a status
  sends that status, and nothing else, as the body of its PATCH, when \<^verbatim>\<open>Request\<close> accepts
  the URL.
\<close>

theorem status_mapping:
  "status_from_event_type (JString ''Object Created'') = Some ''failed''
   \<and> status_from_event_type (JString ''Object Deleted'') = Some ''delete_failed''
   \<and> (et \<noteq> JString ''Object Created'' \<and> et \<noteq> JString ''Object Deleted'' \<longrightarrow>
        status_from_event_type et = None)
   \<and> (json_loads env (body_text r) = Inr payload \<and> message_overrides payload = Some ov \<and>
      get_key_and_event_type ov = Inr (key, et) \<and> status_from_event_type et = None \<longrightarrow>
        (\<exists>m. process_record env tok sec r tr = (Inr (), tr @ [LogError m])) \<and>
        record_patches env tok sec r tr = [])
   \<and> (json_loads env (body_text r) = Inr payload \<and> message_overrides payload = Some ov \<and>
      get_key_and_event_type ov = Inr (JString k, et) \<and> k \<noteq> [] \<and>
      status_from_event_type et = Some status \<and>
      Request env (ALB_BASE_URL env @ DOCS_API_PATH env @ ''/'' @ path_stem k) = None \<longrightarrow>
        map req_data (record_patches env tok sec r tr) = [JObject [(''status'', JString status)]])"
proof -
  have skip: "(\<exists>m. process_record env tok sec r tr = (Inr (), tr @ [LogError m])) \<and>
        record_patches env tok sec r tr = []"
    if "json_loads env (body_text r) = Inr payload" "message_overrides payload = Some ov"
      "get_key_and_event_type ov = Inr (key, et)" "status_from_event_type et = None"
    using process_record_skip [OF that(1,2) decide_skip [OF that(3,4)]] .
  have report: "map req_data (record_patches env tok sec r tr) = [JObject [(''status'', JString status)]]"
    if "json_loads env (body_text r) = Inr payload" "message_overrides payload = Some ov"
      "get_key_and_event_type ov = Inr (JString k, et)" "k \<noteq> []"
      "status_from_event_type et = Some status"
      "Request env (ALB_BASE_URL env @ DOCS_API_PATH env @ ''/'' @ path_stem k) = None"
    using record_patches_Report [OF that] by (simp add: patch_request_def)
  show ?thesis using skip report by (simp add: status_from_event_type_def)
qed

theorem status_mapping_witness:
  "json_loads example_env (body_text \<lparr>body = Some restored_body\<rparr>) = Inr restored_payload
   \<and> message_overrides restored_payload =
       Some (JArray [JObject [(''environment'',
         JArray [env_pair ''S3_OBJECT_KEY'' ''foo/bar.txt'',
                 env_pair ''EVENT_TYPE'' ''Object Restored''])]])
   \<and> get_key_and_event_type (JArray [JObject [(''environment'',
         JArray [env_pair ''S3_OBJECT_KEY'' ''foo/bar.txt'',
                 env_pair ''EVENT_TYPE'' ''Object Restored''])]]) =
       Inr (JString ''foo/bar.txt'', JString ''Object Restored'')
   \<and> status_from_event_type (JString ''Object Restored'') = None
   \<and> (\<exists>m. process_record example_env ''t0k'' ''s3c'' \<lparr>body = Some restored_body\<rparr> [] =
            (Inr (), [] @ [LogError m]))
   \<and> record_patches example_env ''t0k'' ''s3c'' \<lparr>body = Some restored_body\<rparr> [] = []
   \<and> json_loads example_env (body_text \<lparr>body = Some run_deleted_body\<rparr>) = Inr run_deleted_payload
   \<and> message_overrides run_deleted_payload =
       Some (JArray [JObject [(''environment'',
         JArray [env_pair ''S3_OBJECT_KEY'' ''documents/abc123.pdf'',
                 env_pair ''EVENT_TYPE'' ''Object Deleted''])]])
   \<and> get_key_and_event_type (JArray [JObject [(''environment'',
         JArray [env_pair ''S3_OBJECT_KEY'' ''documents/abc123.pdf'',
                 env_pair ''EVENT_TYPE'' ''Object Deleted''])]]) =
       Inr (JString ''documents/abc123.pdf'', JString ''Object Deleted'')
   \<and> status_from_event_type (JString ''Object Deleted'') = Some ''delete_failed''
   \<and> map req_data (record_patches example_env ''t0k'' ''s3c'' \<lparr>body = Some run_deleted_body\<rparr> []) =
       [JObject [(''status'', JString ''delete_failed'')]]"
proof -
  let ?ov = "JArray [JObject [(''environment'',
         JArray [env_pair ''S3_OBJECT_KEY'' ''foo/bar.txt'',
                 env_pair ''EVENT_TYPE'' ''Object Restored''])]]"
  have loads: "json_loads example_env (body_text \<lparr>body = Some restored_body\<rparr>) = Inr restored_payload"
    by (simp add: sample_defs body_text_def)
  have ov: "message_overrides restored_payload = Some ?ov"
    by (simp add: message_overrides_def restored_payload_def)
  have kt: "get_key_and_event_type ?ov = Inr (JString ''foo/bar.txt'', JString ''Object Restored'')"
    by (simp add: get_key_and_event_type_def env_pair_def map_get_def)
  have none: "status_from_event_type (JString ''Object Restored'') = None"
    by (simp add: status_from_event_type_def)
  let ?ov' = "JArray [JObject [(''environment'',
         JArray [env_pair ''S3_OBJECT_KEY'' ''documents/abc123.pdf'',
                 env_pair ''EVENT_TYPE'' ''Object Deleted''])]]"
  have loads': "json_loads example_env (body_text \<lparr>body = Some run_deleted_body\<rparr>) = Inr run_deleted_payload"
    by (simp add: sample_defs body_text_def)
  have ov': "message_overrides run_deleted_payload = Some ?ov'"
    by (simp add: message_overrides_def run_deleted_payload_def)
  have kt': "get_key_and_event_type ?ov' = Inr (JString ''documents/abc123.pdf'', JString ''Object Deleted'')"
    by (simp add: get_key_and_event_type_def env_pair_def map_get_def)
  have some: "status_from_event_type (JString ''Object Deleted'') = Some ''delete_failed''"
    by (simp add: status_from_event_type_def)
  have key: "''documents/abc123.pdf'' \<noteq> []" by simp
  have url: "Request example_env
       (ALB_BASE_URL example_env @ DOCS_API_PATH example_env @ ''/'' @
        path_stem ''documents/abc123.pdf'') = None"
    by (simp add: sample_defs path_stem_def path_name_def rfind_def)
  from status_mapping [where env = example_env and r = "\<lparr>body = Some restored_body\<rparr>"
      and payload = restored_payload and ov = ?ov and key = "JString ''foo/bar.txt''"
      and et = "JString ''Object Restored''" and tok = "''t0k''" and sec = "''s3c''" and tr = "[]"]
    loads ov kt none
  have skip: "(\<exists>m. process_record example_env ''t0k'' ''s3c'' \<lparr>body = Some restored_body\<rparr> [] =
            (Inr (), [] @ [LogError m]))
     \<and> record_patches example_env ''t0k'' ''s3c'' \<lparr>body = Some restored_body\<rparr> [] = []"
    by blast
  from status_mapping [where env = example_env and r = "\<lparr>body = Some run_deleted_body\<rparr>"
      and payload = run_deleted_payload and ov = ?ov' and k = "''documents/abc123.pdf''"
      and et = "JString ''Object Deleted''" and status = "''delete_failed''"
      and tok = "''t0k''" and sec = "''s3c''" and tr = "[]"]
    loads' ov' kt' some key url
  have report: "map req_data (record_patches example_env ''t0k'' ''s3c'' \<lparr>body = Some run_deleted_body\<rparr> []) =
       [JObject [(''status'', JString ''delete_failed'')]]"
    by blast
  show ?thesis using loads ov kt none skip loads' ov' kt' some report by blast
qed

subsection \<open>Classification of the payload\<close>

lemma process_record_object:
  "json_loads env (body_text r) = Inr (JObject kvs) \<Longrightarrow>
   process_record env tok sec r tr =
     (if map_of kvs ''detail-type'' = Some (JString ''ECS Task State Change'')
      then handle_ecs_task_failure env (JObject kvs) tok sec tr
      else if map_of kvs ''containerOverrides'' \<noteq> None
      then handle_run_task_dlq env (JObject kvs) tok sec tr
      else (Inr (), tr @ [LogError ''Unrecognized payload shape; skipping'']))"
  by (simp add: process_record_def in_keys_iff split: option.splits)

text \<open>
  Claim C5, for a payload that is a JSON object. If its \<^verbatim>\<open>detail-type\<close> is
  \<^verbatim>\<open>ECS Task State Change\<close> the record is handled by \<open>handle_ecs_task_failure\<close>, whose
  result depends on the payload only through \<^verbatim>\<open>detail.overrides.containerOverrides\<close>;
  otherwise, if it has the key \<^verbatim>\<open>containerOverrides\<close>, by \<open>handle_run_task_dlq\<close>, whose
  result depends on the payload only through that entry; otherwise it is logged as
  unrecognized and skipped. The three cases exclude one another and cover every object.
\<close>

theorem classification_order:
  "(json_loads env (body_text r) = Inr (JObject kvs) \<longrightarrow>
      process_record env tok sec r tr =
        (if map_of kvs ''detail-type'' = Some (JString ''ECS Task State Change'')
         then handle_ecs_task_failure env (JObject kvs) tok sec tr
         else if map_of kvs ''containerOverrides'' \<noteq> None
         then handle_run_task_dlq env (JObject kvs) tok sec tr
         else (Inr (), tr @ [LogError ''Unrecognized payload shape; skipping''])))
   \<and> (detail_overrides p = detail_overrides p' \<longrightarrow>
        handle_ecs_task_failure env p tok sec tr = handle_ecs_task_failure env p' tok sec tr)
   \<and> (py_get p ''containerOverrides'' (JArray []) = py_get p' ''containerOverrides'' (JArray []) \<longrightarrow>
        handle_run_task_dlq env p tok sec tr = handle_run_task_dlq env p' tok sec tr)
   \<and> (map_of kvs ''detail'' = Some (JObject d) \<and> map_of d ''overrides'' = Some (JObject ovs) \<and>
      map_of ovs ''containerOverrides'' = Some ov \<longrightarrow> detail_overrides (JObject kvs) = Inr ov)
   \<and> (map_of kvs ''containerOverrides'' = Some ov \<longrightarrow>
        py_get (JObject kvs) ''containerOverrides'' (JArray []) = Inr ov)"
  by (simp add: process_record_object handle_ecs_task_failure_decide handle_run_task_dlq_decide
      detail_overrides_def)

theorem classification_order_witness:
  "json_loads example_env (body_text \<lparr>body = Some other_shape_body\<rparr>) =
     Inr (JObject [(''source'', JString ''aws.events'')])
   \<and> process_record example_env ''t0k'' ''s3c'' \<lparr>body = Some other_shape_body\<rparr> [] =
       (Inr (), [] @ [LogError ''Unrecognized payload shape; skipping''])
   \<and> json_loads example_env (body_text \<lparr>body = Some run_deleted_body\<rparr>) =
       Inr (JObject [(''containerOverrides'',
         JArray [JObject [(''environment'',
           JArray [env_pair ''S3_OBJECT_KEY'' ''documents/abc123.pdf'',
                   env_pair ''EVENT_TYPE'' ''Object Deleted''])]])])
   \<and> process_record example_env ''t0k'' ''s3c'' \<lparr>body = Some run_deleted_body\<rparr> [] =
       handle_run_task_dlq example_env run_deleted_payload ''t0k'' ''s3c'' []"
proof -
  let ?kvs = "[(''containerOverrides'',
         JArray [JObject [(''environment'',
           JArray [env_pair ''S3_OBJECT_KEY'' ''documents/abc123.pdf'',
                   env_pair ''EVENT_TYPE'' ''Object Deleted''])]])]"
  have loads: "json_loads example_env (body_text \<lparr>body = Some other_shape_body\<rparr>) =
     Inr (JObject [(''source'', JString ''aws.events'')])"
    by (simp add: sample_defs body_text_def)
  have loads': "json_loads example_env (body_text \<lparr>body = Some run_deleted_body\<rparr>) = Inr (JObject ?kvs)"
    by (simp add: sample_defs body_text_def)
  have payload: "run_deleted_payload = JObject ?kvs"
    by (simp add: run_deleted_payload_def)
  from classification_order [where env = example_env and r = "\<lparr>body = Some other_shape_body\<rparr>"
      and kvs = "[(''source'', JString ''aws.events'')]" and tok = "''t0k''" and sec = "''s3c''"
      and tr = "[]"] loads
  have other: "process_record example_env ''t0k'' ''s3c'' \<lparr>body = Some other_shape_body\<rparr> [] =
       (Inr (), [] @ [LogError ''Unrecognized payload shape; skipping''])"
    by simp
  from classification_order [where env = example_env and r = "\<lparr>body = Some run_deleted_body\<rparr>"
      and kvs = ?kvs and tok = "''t0k''" and sec = "''s3c''" and tr = "[]"] loads'
  have run: "process_record example_env ''t0k'' ''s3c'' \<lparr>body = Some run_deleted_body\<rparr> [] =
       handle_run_task_dlq example_env (JObject ?kvs) ''t0k'' ''s3c'' []"
    by simp
  show ?thesis using loads other loads' run unfolding payload by blast
qed

text \<open>
  Claim C5 as stated covers every parsed payload. A body that parses to a JSON value
  other than an object, here the empty array, takes none of the three branches: the
  lookup of \<^verbatim>\<open>detail-type\<close> raises \<^verbatim>\<open>AttributeError\<close>, nothing is logged, and the exception
  leaves the handler.
\<close>

theorem array_payload_raises_counterexample:
  "json_loads example_env (body_text \<lparr>body = Some ''[]''\<rparr>) = Inr (JArray [])
   \<and> process_record example_env ''t0k'' ''s3c'' \<lparr>body = Some ''[]''\<rparr> [] = (Inl AttributeError, [])"
  by (simp add: process_record_def body_text_def sample_defs)

subsection \<open>The request\<close>

lemma split_on_nonempty: "split_on c xs \<noteq> []"
  by (induction xs) (auto split: list.splits)

lemma split_on_absent: "c \<notin> set xs \<Longrightarrow> split_on c xs = [xs]"
  by (induction xs) auto

lemma split_on_append:
  "split_on c (xs @ c # ys) = split_on c xs @ split_on c ys"
proof (induction xs)
  case Nil
  show ?case by simp
next
  case (Cons a xs)
  obtain p ps where "split_on c xs = p # ps"
    using split_on_nonempty [of c xs] by (cases "split_on c xs") auto
  then show ?case using Cons by simp
qed

lemma last_split_on: "last (split_on c (xs @ c # ys)) = last (split_on c ys)"
  by (simp add: split_on_append split_on_nonempty)

lemma filter_last_nonempty: "xs \<noteq> [] \<Longrightarrow> P (last xs) \<Longrightarrow> filter P xs \<noteq> []"
  using last_in_set [of xs] by (auto simp: filter_empty_conv)

lemma last_filter_keep: "xs \<noteq> [] \<Longrightarrow> P (last xs) \<Longrightarrow> last (filter P xs) = last xs"
proof (induction xs)
  case Nil
  then show ?case by simp
next
  case (Cons a xs)
  show ?case
  proof (cases "xs = []")
    case True
    then show ?thesis using Cons.prems by simp
  next
    case False
    then have "P (last xs)" using Cons.prems by simp
    then have "filter P xs \<noteq> []" "last (filter P xs) = last xs"
      using False filter_last_nonempty Cons.IH by auto
    then show ?thesis using False by simp
  qed
qed

lemma path_name_last:
  assumes "last (split_on CHR ''/'' key) = name" "name \<noteq> []" "name \<noteq> ''.''"
  shows "path_name key = name"
proof -
  let ?P = "\<lambda>p. p \<noteq> [] \<and> p \<noteq> ''.''"
  let ?parts = "split_on CHR ''/'' key"
  have ne: "?parts \<noteq> []" by (rule split_on_nonempty)
  have P: "?P (last ?parts)" using assms by simp
  have "filter ?P ?parts \<noteq> []" using filter_last_nonempty [of ?parts ?P, OF ne P] .
  then obtain p ps where pps: "filter ?P ?parts = p # ps" by (cases "filter ?P ?parts") auto
  have "last (filter ?P ?parts) = name"
    using last_filter_keep [of ?parts ?P, OF ne P] assms(1) by simp
  then have "last (p # ps) = name" using pps by simp
  then show ?thesis unfolding path_name_def pps by simp
qed

lemma rfind_last_dot:
  "c \<notin> set ext \<Longrightarrow> rfind (base @ c # ext) c = int (length base)"
proof -
  assume "c \<notin> set ext"
  then have "takeWhile (\<lambda>x. x \<noteq> c) (rev ext @ c # rev base) = rev ext"
    by (simp add: takeWhile_append)
  then show ?thesis by (simp add: rfind_def)
qed

lemma stem_of_name:
  assumes name: "path_name key = base @ CHR ''.'' # ext"
    and "CHR ''.'' \<notin> set ext" "base \<noteq> []" "ext \<noteq> []"
  shows "path_stem key = base"
  using assms rfind_last_dot [of "CHR ''.''" ext base]
  by (simp add: path_stem_def Let_def)

lemma path_stem_filename:
  assumes "CHR ''/'' \<notin> set base" "CHR ''/'' \<notin> set ext" "CHR ''.'' \<notin> set ext"
    "base \<noteq> []" "ext \<noteq> []"
  shows "path_stem (dir @ CHR ''/'' # base @ CHR ''.'' # ext) = base"
    and "path_stem (base @ CHR ''.'' # ext) = base"
proof -
  let ?name = "base @ CHR ''.'' # ext"
  have abs: "CHR ''/'' \<notin> set ?name" using assms by simp
  have ne: "?name \<noteq> []" "?name \<noteq> ''.''" using assms by (simp_all add: append_eq_Cons_conv)
  have "last (split_on CHR ''/'' (dir @ CHR ''/'' # ?name)) = ?name"
    using last_split_on [of "CHR ''/''" dir ?name] split_on_absent [OF abs] by simp
  from path_name_last [OF this ne] have "path_name (dir @ CHR ''/'' # ?name) = ?name" .
  from stem_of_name [OF this assms(3-5)]
  show "path_stem (dir @ CHR ''/'' # base @ CHR ''.'' # ext) = base" .
  have "last (split_on CHR ''/'' ?name) = ?name"
    using split_on_absent [OF abs] by simp
  from path_name_last [OF this ne] have "path_name ?name = ?name" .
  from stem_of_name [OF this assms(3-5)]
  show "path_stem (base @ CHR ''.'' # ext) = base" .
qed

lemma process_records_single:
  "patches_of (snd (process_records env tok sec [r] tr)) = patches_of tr @ record_patches env tok sec r tr"
proof -
  obtain l where l: "snd (process_record env tok sec r tr) = tr @ l"
    using process_record_run [of env tok sec r tr] by blast
  have "snd (process_records env tok sec [r] tr) = snd (process_record env tok sec r tr)"
    by (cases "process_record env tok sec r tr") (auto split: sum.splits)
  then show ?thesis using l by (simp add: record_patches_def patches_of_append)
qed

lemma secrets_quiet:
  assumes "get_ingestion_token env [received_log] = (r1, ta)" "get_origin_verify_secret env ta = (r2, tb)"
  shows "patches_of tb = []"
proof -
  obtain p1 where "ta = [received_log] @ p1" "quiet p1"
    using get_ingestion_token_run [of env "[received_log]"] assms(1) by auto
  moreover obtain p2 where "tb = ta @ p2" "quiet p2"
    using get_origin_verify_secret_run [of env ta] assms(2) by auto
  ultimately show ?thesis
    by (simp add: patches_of_append patches_of_quiet received_log_def)
qed

lemma ecs_created_verdict:
  "json_loads env (body_text r) = Inr ecs_created_payload \<Longrightarrow>
   record_verdict env r = Patch ''Handling ECS Task failure event'' ''bar'' ''failed''"
  by (simp add: record_verdict_def ecs_created_payload_def env_pair_def decide_def detail_overrides_def
      get_key_and_event_type_def map_get_def status_from_event_type_def
      path_stem_def path_name_def rfind_def)

text \<open>
  Claim C7, for a URL that \<^verbatim>\<open>Request\<close> accepts. A record from which the handler extracts a
  non-empty string key and an event type with a status, from either payload shape, adds
  exactly one PATCH: to \<^verbatim>\<open>{ALB_BASE_URL}{DOCS_API_PATH}/{document_id}\<close> with the stem of the
  key as document id, the method \<^verbatim>\<open>PATCH\<close>, the status as its only body entry, and the
  three headers, carrying the ingestion token and the origin-verification secret. No
  record adds more than one PATCH, or one of another form. The stem of a key that ends in
  \<^verbatim>\<open>base.ext\<close> is \<^verbatim>\<open>base\<close>. A batch of one record holding the task-state-change event for
  \<^verbatim>\<open>foo/bar.txt\<close> and \<^verbatim>\<open>Object Created\<close> results in exactly one PATCH, to \<^verbatim>\<open>.../bar\<close> with
  status \<^verbatim>\<open>failed\<close>.
\<close>

theorem one_patch_per_report:
  "(json_loads env (body_text r) = Inr payload \<and> message_overrides payload = Some ov \<and>
    get_key_and_event_type ov = Inr (JString key, et) \<and> key \<noteq> [] \<and>
    status_from_event_type et = Some status \<and>
    Request env (ALB_BASE_URL env @ DOCS_API_PATH env @ ''/'' @ path_stem key) = None \<longrightarrow>
      record_patches env tok sec r tr =
        [\<lparr> req_url = ALB_BASE_URL env @ DOCS_API_PATH env @ ''/'' @ path_stem key,
            req_data = JObject [(''status'', JString status)],
            req_method = ''PATCH'',
            req_headers = [(''Content-Type'', ''application/json''),
                           (''x-api-token'', tok),
                           (''X-Origin-Verify'', sec)] \<rparr>])
   \<and> (record_patches env tok sec r tr = [] \<or>
     (\<exists>payload ov key et status.
        json_loads env (body_text r) = Inr payload \<and> message_overrides payload = Some ov \<and>
        get_key_and_event_type ov = Inr (JString key, et) \<and>
        status_from_event_type et = Some status \<and>
        record_patches env tok sec r tr =
          [\<lparr> req_url = ALB_BASE_URL env @ DOCS_API_PATH env @ ''/'' @ path_stem key,
            req_data = JObject [(''status'', JString status)],
            req_method = ''PATCH'',
            req_headers = [(''Content-Type'', ''application/json''),
                           (''x-api-token'', tok),
                           (''X-Origin-Verify'', sec)] \<rparr>]))
   \<and> (CHR ''/'' \<notin> set base \<and> CHR ''/'' \<notin> set ext \<and> CHR ''.'' \<notin> set ext \<and>
      base \<noteq> [] \<and> ext \<noteq> [] \<longrightarrow>
        path_stem (dir @ ''/'' @ base @ ''.'' @ ext) = base \<and> path_stem (base @ ''.'' @ ext) = base)
   \<and> (json_loads env (body_text r) = Inr ecs_created_payload \<and>
      get_ingestion_token env [received_log] = (Inr tok, ta) \<and>
      get_origin_verify_secret env ta = (Inr sec, tb) \<and>
      Request env (ALB_BASE_URL env @ DOCS_API_PATH env @ ''/bar'') = None \<longrightarrow>
        patches_of (snd (handler env \<lparr>Records = Some [r]\<rparr>)) =
          [\<lparr> req_url = ALB_BASE_URL env @ DOCS_API_PATH env @ ''/bar'',
            req_data = JObject [(''status'', JString ''failed'')],
            req_method = ''PATCH'',
            req_headers = [(''Content-Type'', ''application/json''),
                           (''x-api-token'', tok),
                           (''X-Origin-Verify'', sec)] \<rparr>])"
proof -
  have positive: "record_patches env tok sec r tr =
        [\<lparr> req_url = ALB_BASE_URL env @ DOCS_API_PATH env @ ''/'' @ path_stem key,
            req_data = JObject [(''status'', JString status)],
            req_method = ''PATCH'',
            req_headers = [(''Content-Type'', ''application/json''),
                           (''x-api-token'', tok),
                           (''X-Origin-Verify'', sec)] \<rparr>]"
    if "json_loads env (body_text r) = Inr payload" "message_overrides payload = Some ov"
      "get_key_and_event_type ov = Inr (JString key, et)" "key \<noteq> []"
      "status_from_event_type et = Some status"
      "Request env (ALB_BASE_URL env @ DOCS_API_PATH env @ ''/'' @ path_stem key) = None"
    using record_patches_Report [OF that] by (simp add: patch_request_def)
  have general: "record_patches env tok sec r tr = [] \<or>
     (\<exists>payload ov key et status.
        json_loads env (body_text r) = Inr payload \<and> message_overrides payload = Some ov \<and>
        get_key_and_event_type ov = Inr (JString key, et) \<and>
        status_from_event_type et = Some status \<and>
        record_patches env tok sec r tr =
          [\<lparr> req_url = ALB_BASE_URL env @ DOCS_API_PATH env @ ''/'' @ path_stem key,
            req_data = JObject [(''status'', JString status)],
            req_method = ''PATCH'',
            req_headers = [(''Content-Type'', ''application/json''),
                           (''x-api-token'', tok),
                           (''X-Origin-Verify'', sec)] \<rparr>])"
  proof (cases "record_patches env tok sec r tr = []")
    case False
    then obtain m d s where v: "record_verdict env r = Patch m d s"
        and ps: "record_patches env tok sec r tr = [patch_request env d s tok sec]"
      using record_patches_cases [of env tok sec r tr] by auto
    from v obtain payload ov where *: "json_loads env (body_text r) = Inr payload"
        "message_overrides payload = Some ov" "decide (Inr ov) = Report d s"
      using record_verdict_Patch [of env r d s] by blast
    from *(3) obtain key et where **: "get_key_and_event_type ov = Inr (JString key, et)"
        "status_from_event_type et = Some s" "d = path_stem key"
      by (auto simp: decide_Report)
    have "record_patches env tok sec r tr =
          [\<lparr> req_url = ALB_BASE_URL env @ DOCS_API_PATH env @ ''/'' @ path_stem key,
            req_data = JObject [(''status'', JString s)],
            req_method = ''PATCH'',
            req_headers = [(''Content-Type'', ''application/json''),
                           (''x-api-token'', tok),
                           (''X-Origin-Verify'', sec)] \<rparr>]"
      using ps **(3) by (simp add: patch_request_def)
    then show ?thesis using *(1,2) **(1,2) by blast
  qed simp
  have stem: "path_stem (dir @ ''/'' @ base @ ''.'' @ ext) = base \<and> path_stem (base @ ''.'' @ ext) = base"
    if "CHR ''/'' \<notin> set base \<and> CHR ''/'' \<notin> set ext \<and> CHR ''.'' \<notin> set ext \<and>
      base \<noteq> [] \<and> ext \<noteq> []"
    using that by (simp add: path_stem_filename)
  have example: "patches_of (snd (handler env \<lparr>Records = Some [r]\<rparr>)) =
          [\<lparr> req_url = ALB_BASE_URL env @ DOCS_API_PATH env @ ''/bar'',
            req_data = JObject [(''status'', JString ''failed'')],
            req_method = ''PATCH'',
            req_headers = [(''Content-Type'', ''application/json''),
                           (''x-api-token'', tok),
                           (''X-Origin-Verify'', sec)] \<rparr>]"
    if "json_loads env (body_text r) = Inr ecs_created_payload"
      "get_ingestion_token env [received_log] = (Inr tok, ta)"
      "get_origin_verify_secret env ta = (Inr sec, tb)"
      "Request env (ALB_BASE_URL env @ DOCS_API_PATH env @ ''/bar'') = None"
  proof -
    have "handler env \<lparr>Records = Some [r]\<rparr> = process_records env tok sec [r] tb"
      using that(2,3) by (simp add: handler_nonempty del: process_records.simps)
    then have "patches_of (snd (handler env \<lparr>Records = Some [r]\<rparr>)) =
        patches_of (snd (process_records env tok sec [r] tb))"
      by (simp only:)
    also have "\<dots> = patches_of tb @ record_patches env tok sec r tb"
      by (rule process_records_single)
    also have "\<dots> = record_patches env tok sec r tb"
      using secrets_quiet [OF that(2,3)] by simp
    also have "\<dots> = [patch_request env ''bar'' ''failed'' tok sec]"
      using ecs_created_verdict [OF that(1)] that(4)
      by (simp add: record_patches_verdict req_url_patch_request)
    finally show ?thesis by (simp add: patch_request_def)
  qed
  show ?thesis using positive general stem example by blast
qed

theorem one_patch_per_report_witness:
  "json_loads example_env (body_text \<lparr>body = Some ecs_created_body\<rparr>) = Inr ecs_created_payload
   \<and> get_ingestion_token example_env [received_log] =
       (Inr ''t0k'',
        [received_log,
         LogInfo ''Fetching ingestion API token from Secrets Manager'',
         GetSecretValue (Some ''arn:token''),
         LogInfo ''Successfully fetched ingestion API token''])
   \<and> get_origin_verify_secret example_env
        [received_log,
         LogInfo ''Fetching ingestion API token from Secrets Manager'',
         GetSecretValue (Some ''arn:token''),
         LogInfo ''Successfully fetched ingestion API token''] =
       (Inr ''s3c'',
        [received_log,
         LogInfo ''Fetching ingestion API token from Secrets Manager'',
         GetSecretValue (Some ''arn:token''),
         LogInfo ''Successfully fetched ingestion API token'',
         LogInfo ''Fetching Origin Verify Secret token from Secrets Manager'',
         GetSecretValue (Some ''arn:origin''),
         LogInfo ''Successfully fetched Origin Verify Secret''])
   \<and> Request example_env (ALB_BASE_URL example_env @ DOCS_API_PATH example_env @ ''/bar'') = None
   \<and> patches_of (snd (handler example_env \<lparr>Records = Some [\<lparr>body = Some ecs_created_body\<rparr>]\<rparr>)) =
       [\<lparr> req_url = ''http://alb.internal/api/documents/bar'',
           req_data = JObject [(''status'', JString ''failed'')],
           req_method = ''PATCH'',
           req_headers = [(''Content-Type'', ''application/json''),
                          (''x-api-token'', ''t0k''),
                          (''X-Origin-Verify'', ''s3c'')] \<rparr>]
   \<and> json_loads example_env (body_text \<lparr>body = Some run_deleted_body\<rparr>) = Inr run_deleted_payload
   \<and> message_overrides run_deleted_payload =
       Some (JArray [JObject [(''environment'',
         JArray [env_pair ''S3_OBJECT_KEY'' ''documents/abc123.pdf'',
                 env_pair ''EVENT_TYPE'' ''Object Deleted''])]])
   \<and> get_key_and_event_type (JArray [JObject [(''environment'',
         JArray [env_pair ''S3_OBJECT_KEY'' ''documents/abc123.pdf'',
                 env_pair ''EVENT_TYPE'' ''Object Deleted''])]]) =
       Inr (JString ''documents/abc123.pdf'', JString ''Object Deleted'')
   \<and> status_from_event_type (JString ''Object Deleted'') = Some ''delete_failed''
   \<and> Request example_env
       (ALB_BASE_URL example_env @ DOCS_API_PATH example_env @ ''/'' @
        path_stem ''documents/abc123.pdf'') = None
   \<and> record_patches example_env ''t0k'' ''s3c'' \<lparr>body = Some run_deleted_body\<rparr> [] =
       [\<lparr> req_url = ''http://alb.internal/api/documents/abc123'',
           req_data = JObject [(''status'', JString ''delete_failed'')],
           req_method = ''PATCH'',
           req_headers = [(''Content-Type'', ''application/json''),
                          (''x-api-token'', ''t0k''),
                          (''X-Origin-Verify'', ''s3c'')] \<rparr>]"
proof -
  let ?ta = "[received_log,
         LogInfo ''Fetching ingestion API token from Secrets Manager'',
         GetSecretValue (Some ''arn:token''),
         LogInfo ''Successfully fetched ingestion API token'']"
  let ?tb = "[received_log,
         LogInfo ''Fetching ingestion API token from Secrets Manager'',
         GetSecretValue (Some ''arn:token''),
         LogInfo ''Successfully fetched ingestion API token'',
         LogInfo ''Fetching Origin Verify Secret token from Secrets Manager'',
         GetSecretValue (Some ''arn:origin''),
         LogInfo ''Successfully fetched Origin Verify Secret'']"
  have loads: "json_loads example_env (body_text \<lparr>body = Some ecs_created_body\<rparr>) = Inr ecs_created_payload"
    by (simp add: sample_defs body_text_def)
  have tok: "get_ingestion_token example_env [received_log] = (Inr ''t0k'', ?ta)"
    by (simp add: get_ingestion_token_def sample_defs)
  have sec: "get_origin_verify_secret example_env ?ta = (Inr ''s3c'', ?tb)"
    by (simp add: get_origin_verify_secret_def sample_defs)
  have url: "Request example_env (ALB_BASE_URL example_env @ DOCS_API_PATH example_env @ ''/bar'') = None"
    by (simp add: sample_defs)
  have env: "ALB_BASE_URL example_env @ DOCS_API_PATH example_env @ ''/bar'' =
      ''http://alb.internal/api/documents/bar''"
    by (simp add: example_env_def)
  from one_patch_per_report [where env = example_env and r = "\<lparr>body = Some ecs_created_body\<rparr>"
      and tok = "''t0k''" and sec = "''s3c''" and ta = ?ta and tb = ?tb] loads tok sec url
  have "patches_of (snd (handler example_env \<lparr>Records = Some [\<lparr>body = Some ecs_created_body\<rparr>]\<rparr>)) =
       [\<lparr> req_url = ALB_BASE_URL example_env @ DOCS_API_PATH example_env @ ''/bar'',
           req_data = JObject [(''status'', JString ''failed'')],
           req_method = ''PATCH'',
           req_headers = [(''Content-Type'', ''application/json''),
                          (''x-api-token'', ''t0k''),
                          (''X-Origin-Verify'', ''s3c'')] \<rparr>]"
    by blast
  then have ecs: "patches_of (snd (handler example_env \<lparr>Records = Some [\<lparr>body = Some ecs_created_body\<rparr>]\<rparr>)) =
       [\<lparr> req_url = ''http://alb.internal/api/documents/bar'',
           req_data = JObject [(''status'', JString ''failed'')],
           req_method = ''PATCH'',
           req_headers = [(''Content-Type'', ''application/json''),
                          (''x-api-token'', ''t0k''),
                          (''X-Origin-Verify'', ''s3c'')] \<rparr>]"
    unfolding env .
  let ?ov = "JArray [JObject [(''environment'',
         JArray [env_pair ''S3_OBJECT_KEY'' ''documents/abc123.pdf'',
                 env_pair ''EVENT_TYPE'' ''Object Deleted''])]]"
  have loads': "json_loads example_env (body_text \<lparr>body = Some run_deleted_body\<rparr>) = Inr run_deleted_payload"
    by (simp add: sample_defs body_text_def)
  have ov': "message_overrides run_deleted_payload = Some ?ov"
    by (simp add: message_overrides_def run_deleted_payload_def)
  have kt': "get_key_and_event_type ?ov = Inr (JString ''documents/abc123.pdf'', JString ''Object Deleted'')"
    by (simp add: get_key_and_event_type_def env_pair_def map_get_def)
  have some: "status_from_event_type (JString ''Object Deleted'') = Some ''delete_failed''"
    by (simp add: status_from_event_type_def)
  have key: "''documents/abc123.pdf'' \<noteq> []" by simp
  have url': "Request example_env
       (ALB_BASE_URL example_env @ DOCS_API_PATH example_env @ ''/'' @
        path_stem ''documents/abc123.pdf'') = None"
    by (simp add: sample_defs path_stem_def path_name_def rfind_def)
  have env': "ALB_BASE_URL example_env @ DOCS_API_PATH example_env @ ''/'' @
        path_stem ''documents/abc123.pdf'' = ''http://alb.internal/api/documents/abc123''"
    by (simp add: example_env_def path_stem_def path_name_def rfind_def)
  from one_patch_per_report [where env = example_env and r = "\<lparr>body = Some run_deleted_body\<rparr>"
      and payload = run_deleted_payload and ov = ?ov and key = "''documents/abc123.pdf''"
      and et = "JString ''Object Deleted''" and status = "''delete_failed''"
      and tok = "''t0k''" and sec = "''s3c''" and tr = "[]"]
    loads' ov' kt' some key url'
  have "record_patches example_env ''t0k'' ''s3c'' \<lparr>body = Some run_deleted_body\<rparr> [] =
       [\<lparr> req_url = ALB_BASE_URL example_env @ DOCS_API_PATH example_env @ ''/'' @
                      path_stem ''documents/abc123.pdf'',
           req_data = JObject [(''status'', JString ''delete_failed'')],
           req_method = ''PATCH'',
           req_headers = [(''Content-Type'', ''application/json''),
                          (''x-api-token'', ''t0k''),
                          (''X-Origin-Verify'', ''s3c'')] \<rparr>]"
    by blast
  then have run: "record_patches example_env ''t0k'' ''s3c'' \<lparr>body = Some run_deleted_body\<rparr> [] =
       [\<lparr> req_url = ''http://alb.internal/api/documents/abc123'',
           req_data = JObject [(''status'', JString ''delete_failed'')],
           req_method = ''PATCH'',
           req_headers = [(''Content-Type'', ''application/json''),
                          (''x-api-token'', ''t0k''),
                          (''X-Origin-Verify'', ''s3c'')] \<rparr>]"
    unfolding env' .
  show ?thesis using loads tok sec url ecs loads' ov' kt' some url' run by blast
qed

text \<open>
  Claim C7 as stated promises the PATCH for every configuration. With a base URL that
  has no scheme, here \<^verbatim>\<open>alb.internal\<close>, the record of the specification's example gets as
  far as \<open>patch_status\<close>, which logs and builds the request: \<^verbatim>\<open>Request\<close> raises \<^verbatim>\<open>ValueError\<close>
  outside the \<^verbatim>\<open>try\<close>, no PATCH is issued, and the invocation fails.
\<close>

theorem schemeless_base_url_counterexample:
  "handler schemeless_env \<lparr>Records = Some [\<lparr>body = Some ecs_created_body\<rparr>]\<rparr> =
     (Inl ValueError,
      [received_log,
       LogInfo ''Fetching ingestion API token from Secrets Manager'',
       GetSecretValue (Some ''arn:token''),
       LogInfo ''Successfully fetched ingestion API token'',
       LogInfo ''Fetching Origin Verify Secret token from Secrets Manager'',
       GetSecretValue (Some ''arn:origin''),
       LogInfo ''Successfully fetched Origin Verify Secret'',
       LogInfo ''Handling ECS Task failure event'',
       patch_log])
   \<and> patches_of (snd (handler schemeless_env
         \<lparr>Records = Some [\<lparr>body = Some ecs_created_body\<rparr>]\<rparr>)) = []"
  by (simp add: model_defs sample_defs received_log_def patch_log_def)

section \<open>Properties of the extension initializer\<close>









end
